theory Spec2Isabelle
  imports Main "HOL-Library.Sublist" "HOL-Library.Word"
begin

section \<open>Text and bytes\<close>

text \<open>
  The program handles two kinds of strings: \<open>bytes\<close> (response bodies, compiled
  patterns, regex groups) and \<open>str\<close> (field values, URLs, printed text). Both are
  modelled as \<open>string\<close>, a list of 8-bit characters. A \<open>bytes\<close> value is the list
  of its bytes. A \<open>str\<close> value is represented by its UTF-8 encoding, so that
  \<open>bytes(s, 'utf-8')\<close> is the identity and \<open>b.decode()\<close> is the identity on
  well-formed UTF-8 and raises \<open>UnicodeDecodeError\<close> otherwise. A \<open>str\<close> holding a
  lone surrogate has no UTF-8 encoding and is outside the model.
\<close>

datatype exn =
    HTTPError
  | URLError
  | JSONDecodeError
  | KeyError string
  | TypeError
  | AttributeError
  | IndexError
  | UnicodeDecodeError
  | RegexError
  | OtherException string

definition byte :: "char \<Rightarrow> nat" where
  "byte c = of_char c"

definition continuation :: "char \<Rightarrow> bool" where
  "continuation c \<longleftrightarrow> 128 \<le> byte c \<and> byte c < 192"

definition second_of_three :: "nat \<Rightarrow> char \<Rightarrow> bool" where
  "second_of_three lead c =
     (if lead = 224 then 160 \<le> byte c \<and> byte c < 192
      else if lead = 237 then 128 \<le> byte c \<and> byte c < 160
      else continuation c)"

definition second_of_four :: "nat \<Rightarrow> char \<Rightarrow> bool" where
  "second_of_four lead c =
     (if lead = 240 then 144 \<le> byte c \<and> byte c < 192
      else if lead = 244 then 128 \<le> byte c \<and> byte c < 144
      else continuation c)"

text \<open>Well-formed UTF-8, as the strict decoder of \<open>bytes.decode()\<close> accepts it.\<close>

fun utf8_valid :: "string \<Rightarrow> bool" where
  "utf8_valid [] = True"
| "utf8_valid (a # s) =
     (if byte a < 128 then utf8_valid s
      else if 194 \<le> byte a \<and> byte a < 224 then
        (case s of b # s' \<Rightarrow> continuation b \<and> utf8_valid s' | _ \<Rightarrow> False)
      else if 224 \<le> byte a \<and> byte a < 240 then
        (case s of b # c # s' \<Rightarrow>
           second_of_three (byte a) b \<and> continuation c \<and> utf8_valid s'
         | _ \<Rightarrow> False)
      else if 240 \<le> byte a \<and> byte a < 245 then
        (case s of b # c # d # s' \<Rightarrow>
           second_of_four (byte a) b \<and> continuation c \<and> continuation d \<and> utf8_valid s'
         | _ \<Rightarrow> False)
      else False)"

definition decode :: "string \<Rightarrow> exn + string" where
  "decode b = (if utf8_valid b then Inr b else Inl UnicodeDecodeError)"

text \<open>\<open>len(s)\<close> of a \<open>str\<close>: the number of code points.\<close>

definition py_len :: "string \<Rightarrow> nat" where
  "py_len s = length (filter (\<lambda>c. \<not> continuation c) s)"

text \<open>
  The characters \<open>str.strip()\<close> removes, each in UTF-8: U+0009..U+000D,
  U+001C..U+0020, U+0085, U+00A0, U+1680, U+2000..U+200A, U+2028, U+2029, U+202F,
  U+205F, U+3000.
\<close>

definition whitespace :: "string list" where
  "whitespace =
     [[CHR 0x09], [CHR 0x0A], [CHR 0x0B], [CHR 0x0C], [CHR 0x0D],
      [CHR 0x1C], [CHR 0x1D], [CHR 0x1E], [CHR 0x1F], [CHR 0x20],
      [CHR 0xC2, CHR 0x85], [CHR 0xC2, CHR 0xA0],
      [CHR 0xE1, CHR 0x9A, CHR 0x80],
      [CHR 0xE2, CHR 0x80, CHR 0x80], [CHR 0xE2, CHR 0x80, CHR 0x81],
      [CHR 0xE2, CHR 0x80, CHR 0x82], [CHR 0xE2, CHR 0x80, CHR 0x83],
      [CHR 0xE2, CHR 0x80, CHR 0x84], [CHR 0xE2, CHR 0x80, CHR 0x85],
      [CHR 0xE2, CHR 0x80, CHR 0x86], [CHR 0xE2, CHR 0x80, CHR 0x87],
      [CHR 0xE2, CHR 0x80, CHR 0x88], [CHR 0xE2, CHR 0x80, CHR 0x89],
      [CHR 0xE2, CHR 0x80, CHR 0x8A],
      [CHR 0xE2, CHR 0x80, CHR 0xA8], [CHR 0xE2, CHR 0x80, CHR 0xA9],
      [CHR 0xE2, CHR 0x80, CHR 0xAF], [CHR 0xE2, CHR 0x81, CHR 0x9F],
      [CHR 0xE3, CHR 0x80, CHR 0x80]]"

function strip_leading :: "string list \<Rightarrow> string \<Rightarrow> string" where
  "strip_leading ws s =
     (case find (\<lambda>w. w \<noteq> [] \<and> prefix w s) ws of
        None \<Rightarrow> s
      | Some w \<Rightarrow> strip_leading ws (drop (length w) s))"
  by pat_completeness auto
termination
proof (relation "measure (\<lambda>(ws, s). length s)")
  show "wf (measure (\<lambda>(ws, s). length s))" by simp
next
  fix ws :: "string list" and s w :: string
  assume "find (\<lambda>w. w \<noteq> [] \<and> prefix w s) ws = Some w"
  then have "w \<noteq> []" and "prefix w s"
    by (auto simp: find_Some_iff)
  then have "s \<noteq> []" by auto
  with \<open>w \<noteq> []\<close> show "((ws, drop (length w) s), (ws, s)) \<in> measure (\<lambda>(ws, s). length s)"
    by simp
qed

definition lstrip :: "string \<Rightarrow> string" where
  "lstrip s = strip_leading whitespace s"

definition rstrip :: "string \<Rightarrow> string" where
  "rstrip s = rev (strip_leading (map rev whitespace) (rev s))"

text \<open>\<open>s.strip()\<close>\<close>

definition strip :: "string \<Rightarrow> string" where
  "strip s = rstrip (lstrip s)"

text \<open>\<open>'{:<15}'.format(s)\<close> for a \<open>str\<close>: padded on the right, never cut.\<close>

definition ljust :: "nat \<Rightarrow> string \<Rightarrow> string" where
  "ljust n s = s @ replicate (n - py_len s) CHR '' ''"

section \<open>Regular expressions\<close>

text \<open>
  The two patterns of the FlatHub variant are constants, so their meaning is written
  out: a pattern is a sequence of literals and quantified character classes, matched
  by backtracking in the priority order of Python's \<open>re\<close> (a lazy star tries the
  shortest repetition first, a bounded greedy repetition the longest). In a bytes
  pattern \<open>.\<close> is any byte but the newline and \<open>[0-9]\<close> the ten ASCII digits.
\<close>

datatype cclass = Any_but_newline | Digit

fun in_class :: "cclass \<Rightarrow> char \<Rightarrow> bool" where
  "in_class Any_but_newline c = (c \<noteq> CHR 0x0A)"
| "in_class Digit c = (48 \<le> byte c \<and> byte c \<le> 57)"

datatype quantifier = Lazy_star | Greedy nat nat

text \<open>
  \<open>Group q cls\<close> is \<open>(cls q)\<close>, a capturing group around one quantified class;
  \<open>Plain q cls\<close> is the same outside a group.
\<close>

datatype item = Lit string | Group quantifier cclass | Plain quantifier cclass

definition capture :: "bool \<Rightarrow> string \<Rightarrow> string list \<Rightarrow> string list" where
  "capture grouped acc gs = (if grouped then rev acc # gs else gs)"

text \<open>
  \<open>matches p s\<close> matches the pattern at the start of \<open>s\<close> and returns the groups
  of the first successful path. \<open>lazy\<close> and \<open>greedy\<close> run one repetition; \<open>acc\<close>
  holds the characters taken so far, last first.
\<close>

function (sequential)
  matches :: "item list \<Rightarrow> string \<Rightarrow> string list option" and
  lazy :: "bool \<Rightarrow> cclass \<Rightarrow> item list \<Rightarrow> string \<Rightarrow> string \<Rightarrow> string list option" and
  greedy :: "bool \<Rightarrow> cclass \<Rightarrow> nat \<Rightarrow> nat \<Rightarrow> item list \<Rightarrow> string \<Rightarrow> string
    \<Rightarrow> string list option"
where
  "matches [] s = Some []"
| "matches (Lit l # p) s = (if prefix l s then matches p (drop (length l) s) else None)"
| "matches (Group Lazy_star cls # p) s = lazy True cls p [] s"
| "matches (Plain Lazy_star cls # p) s = lazy False cls p [] s"
| "matches (Group (Greedy lo hi) cls # p) s = greedy True cls lo hi p [] s"
| "matches (Plain (Greedy lo hi) cls # p) s = greedy False cls lo hi p [] s"
| "lazy grouped cls p acc s =
     (case matches p s of
        Some gs \<Rightarrow> Some (capture grouped acc gs)
      | None \<Rightarrow>
          (case s of
             [] \<Rightarrow> None
           | c # s' \<Rightarrow> if in_class cls c then lazy grouped cls p (c # acc) s' else None))"
| "greedy grouped cls lo hi p acc s =
     (case (case s of
              [] \<Rightarrow> None
            | c # s' \<Rightarrow>
                if 0 < hi \<and> in_class cls c
                then greedy grouped cls (lo - 1) (hi - 1) p (c # acc) s'
                else None) of
        Some gs \<Rightarrow> Some gs
      | None \<Rightarrow>
          if lo = 0 then map_option (capture grouped acc) (matches p s) else None)"
  by pat_completeness auto
termination
  by (relation "measures
        [\<lambda>x. case x of
            Inl (p, s) \<Rightarrow> length s
          | Inr (Inl (g, c, p, acc, s)) \<Rightarrow> length s
          | Inr (Inr (g, c, lo, hi, p, acc, s)) \<Rightarrow> length s,
         \<lambda>x. case x of
            Inl (p, s) \<Rightarrow> 2 * length p
          | Inr (Inl (g, c, p, acc, s)) \<Rightarrow> 2 * length p + 1
          | Inr (Inr (g, c, lo, hi, p, acc, s)) \<Rightarrow> 2 * length p + 1]")
     auto

text \<open>\<open>re.search\<close>: the first position of the text, from the left, where the pattern matches.\<close>

fun scan :: "item list \<Rightarrow> string \<Rightarrow> string list option" where
  "scan p [] = matches p []"
| "scan p (c # s) =
     (case matches p (c # s) of Some gs \<Rightarrow> Some gs | None \<Rightarrow> scan p s)"

text \<open>
  A match object, as far as the program reads it: the values of groups 1, 2, ...,
  \<open>None\<close> for a group that took no part in the match.
\<close>

type_synonym match = "string option list"

text \<open>\<open>m.group(i)\<close> for \<open>i \<ge> 1\<close>\<close>

definition group :: "match \<Rightarrow> nat \<Rightarrow> exn + string option" where
  "group m i = (if 1 \<le> i \<and> i \<le> length m then Inr (m ! (i - 1)) else Inl IndexError)"

text \<open>\<open>m.group(i).decode()\<close>\<close>

definition group_decode :: "match \<Rightarrow> nat \<Rightarrow> exn + string" where
  "group_decode m i =
     (case group m i of
        Inl e \<Rightarrow> Inl e
      | Inr None \<Rightarrow> Inl AttributeError
      | Inr (Some b) \<Rightarrow> decode b)"

section \<open>Values and the outside world\<close>

text \<open>
  What \<open>json.loads\<close> can return. A dict is the list of its items, looked up by
  \<open>map_of\<close>. A float is the 64 bits of its IEEE 754 double; the program never
  computes with one.
\<close>

datatype pyval =
    PNone
  | PBool bool
  | PInt int
  | PFloat "64 word"
  | PStr string
  | PList "pyval list"
  | PDict "(string \<times> pyval) list"

text \<open>\<open>v[k]\<close> for a \<open>str\<close> key \<open>k\<close>: only a dict can be indexed by one.\<close>

fun getitem :: "pyval \<Rightarrow> string \<Rightarrow> exn + pyval" where
  "getitem (PDict kvs) k = (case map_of kvs k of None \<Rightarrow> Inl (KeyError k) | Some v \<Rightarrow> Inr v)"
| "getitem _ k = Inl TypeError"

text \<open>\<open>v.strip()\<close>: of the values above only a \<open>str\<close> has the method.\<close>

fun strip_method :: "pyval \<Rightarrow> exn + string" where
  "strip_method (PStr s) = Inr (strip s)"
| "strip_method _ = Inl AttributeError"

text \<open>
  The libraries the program calls, as parameters:
  \<^item> \<open>urlopen url\<close> is \<open>request.urlopen(url)\<close> followed by \<open>response.read()\<close>: the
    body, or the exception raised. The network is taken as a function of the URL.
  \<^item> \<open>json_loads\<close> is \<open>json.loads\<close> on bytes.
  \<^item> \<open>re_search pattern text\<close> is \<open>re.search\<close> for a pattern built at run time
    from a package name, whose meaning depends on Python's pattern parser.
  \<^item> \<open>repr\<close> is the text \<open>str(v)\<close> gives for a value that is not a \<open>str\<close>.
\<close>

record env =
  urlopen :: "string \<Rightarrow> exn + string"
  json_loads :: "string \<Rightarrow> exn + pyval"
  re_search :: "string \<Rightarrow> string \<Rightarrow> exn + match option"
  repr :: "pyval \<Rightarrow> string"

text \<open>\<open>str(v)\<close>\<close>

definition py_str :: "env \<Rightarrow> pyval \<Rightarrow> string" where
  "py_str e v = (case v of PStr s \<Rightarrow> s | _ \<Rightarrow> repr e v)"

text \<open>
  A computation that may raise and may log warnings: its result, and the warnings
  it emitted in order.
\<close>

type_synonym 'a run = "(exn + 'a) \<times> string list"

text \<open>\<open>_url_content\<close>: \<open>None\<close> on \<open>HTTPError\<close> (silently) and on \<open>URLError\<close> (with a
  warning); any other exception passes through.\<close>

definition url_content :: "env \<Rightarrow> string \<Rightarrow> string option run" where
  "url_content e url =
     (case urlopen e url of
        Inr content \<Rightarrow> (Inr (Some content), [])
      | Inl HTTPError \<Rightarrow> (Inr None, [])
      | Inl URLError \<Rightarrow> (Inr None, [''invalid url: '' @ url])
      | Inl x \<Rightarrow> (Inl x, []))"

section \<open>Packages\<close>

text \<open>
  An instance of \<open>Package\<close> or of one of its subclasses. \<open>version\<close> can hold any
  JSON value, since the ArchLinux variant stores \<open>package_info["pkgver"]\<close> as it is.
  \<open>source_package\<close> is the attribute only \<open>PackageFedora\<close> sets.
\<close>

record package =
  repository :: string
  name :: string
  distro :: string
  distro_release :: string
  version :: pyval
  last_updated :: string
  source_package :: "string option"

text \<open>A fresh object, before \<open>__init__\<close> has set anything.\<close>

definition new_object :: package where
  "new_object =
     \<lparr>repository = [], name = [], distro = [], distro_release = [],
      version = PStr [], last_updated = [], source_package = None\<rparr>"

text \<open>A keyword argument with a default value.\<close>

definition or_default :: "'a \<Rightarrow> 'a option \<Rightarrow> 'a" where
  "or_default d x = (case x of None \<Rightarrow> d | Some v \<Rightarrow> v)"

text \<open>
  \<open>Package.__init__\<close>. The call \<open>self.update()\<close> is dispatched on the class of
  \<open>self\<close>, so the subclass's \<open>update\<close> is an argument here.
\<close>

definition Package_init ::
  "(package \<Rightarrow> package run) \<Rightarrow> package \<Rightarrow> string \<Rightarrow> string \<Rightarrow> string option \<Rightarrow> string option
     \<Rightarrow> package run" where
  "Package_init update self repository' name' distro' distro_release' =
     update (self\<lparr>repository := repository', name := name',
                  distro := or_default [] distro', distro_release := or_default [] distro_release',
                  version := PStr [], last_updated := []\<rparr>)"

subsection \<open>ArchLinux\<close>

text \<open>\<open>PackageArchLinux.update\<close>, from \<open>json.loads\<close> on.\<close>

definition arch_extract :: "env \<Rightarrow> string \<Rightarrow> package \<Rightarrow> exn + package" where
  "arch_extract e content self =
     (case json_loads e content of
        Inl x \<Rightarrow> Inl x
      | Inr package_info \<Rightarrow>
          (case getitem package_info ''pkgver'' of
             Inl x \<Rightarrow> Inl x
           | Inr pkgver \<Rightarrow>
               (case getitem package_info ''last_update'' of
                  Inl x \<Rightarrow> Inl x
                | Inr last_update \<Rightarrow>
                    (case strip_method last_update of
                       Inl x \<Rightarrow> Inl x
                     | Inr stripped \<Rightarrow>
                         Inr (self\<lparr>version := pkgver, last_updated := stripped\<rparr>)))))"

definition arch_url :: "package \<Rightarrow> string" where
  "arch_url self =
     ''https://archlinux.org/packages/'' @ repository self @ ''/x86_64/'' @ name self @ ''/json/''"

definition arch_update :: "env \<Rightarrow> package \<Rightarrow> package run" where
  "arch_update e self =
     (case url_content e (arch_url self) of
        (Inl x, warned) \<Rightarrow> (Inl x, warned)
      | (Inr None, warned) \<Rightarrow> (Inr self, warned)
      | (Inr (Some package_info), warned) \<Rightarrow> (arch_extract e package_info self, warned))"

definition PackageArchLinux :: "env \<Rightarrow> string \<Rightarrow> string \<Rightarrow> package run" where
  "PackageArchLinux e repository' name' =
     Package_init (arch_update e) new_object repository' name' (Some ''ArchLinux'') (Some [])"

subsection \<open>Debian and Fedora\<close>

text \<open>
  Both build their pattern from fields of the instance and set \<open>version\<close> from
  group 1 of the match, when there is one.
\<close>

definition set_version_from :: "env \<Rightarrow> string \<Rightarrow> string \<Rightarrow> package \<Rightarrow> exn + package" where
  "set_version_from e vp html self =
     (case re_search e vp html of
        Inl x \<Rightarrow> Inl x
      | Inr None \<Rightarrow> Inr self
      | Inr (Some m) \<Rightarrow>
          (case group_decode m 1 of
             Inl x \<Rightarrow> Inl x
           | Inr v \<Rightarrow> Inr (self\<lparr>version := PStr v\<rparr>)))"

definition debian_url :: "package \<Rightarrow> string" where
  "debian_url self = ''https://packages.debian.org/source/'' @ repository self @ ''/'' @ name self"

text \<open>The pattern \<open>f'<h1>Source Package: {self.name} \((.*?)\)\n</h1>'\<close>: in this
  literal \<open>\(\<close> and \<open>\)\<close> keep their backslash and \<open>\n\<close> is a newline.\<close>

definition debian_vp :: "package \<Rightarrow> string" where
  "debian_vp self =
     ''<h1>Source Package: '' @ name self @ '' '' @ [CHR 0x5C] @ ''((.*?)'' @ [CHR 0x5C] @ '')''
       @ [CHR 0x0A] @ ''</h1>''"

definition debian_update :: "env \<Rightarrow> package \<Rightarrow> package run" where
  "debian_update e self =
     (case url_content e (debian_url self) of
        (Inl x, warned) \<Rightarrow> (Inl x, warned)
      | (Inr None, warned) \<Rightarrow> (Inr self, warned)
      | (Inr (Some html), warned) \<Rightarrow> (set_version_from e (debian_vp self) html self, warned))"

definition PackageDebian :: "env \<Rightarrow> string \<Rightarrow> string \<Rightarrow> package run" where
  "PackageDebian e repository' name' =
     Package_init (debian_update e) new_object repository' name' (Some ''Debian'') None"

text \<open>Only called on a \<open>PackageFedora\<close>, where the attribute is set.\<close>

definition the_source_package :: "package \<Rightarrow> exn + string" where
  "the_source_package self =
     (case source_package self of None \<Rightarrow> Inl AttributeError | Some sp \<Rightarrow> Inr sp)"

definition fedora_url :: "string \<Rightarrow> package \<Rightarrow> string" where
  "fedora_url sp self = ''https://packages.fedoraproject.org/pkgs/'' @ sp @ ''/'' @ name self @ ''/''"

definition fedora_vp :: "package \<Rightarrow> string" where
  \<open>fedora_vp self = ''<a href="fedora-'' @ distro_release self @ ''.html">(.*?)</a>''\<close>

definition fedora_update :: "env \<Rightarrow> package \<Rightarrow> package run" where
  "fedora_update e self =
     (case the_source_package self of
        Inl x \<Rightarrow> (Inl x, [])
      | Inr sp \<Rightarrow>
          (case url_content e (fedora_url sp self) of
             (Inl x, warned) \<Rightarrow> (Inl x, warned)
           | (Inr None, warned) \<Rightarrow> (Inr self, warned)
           | (Inr (Some html), warned) \<Rightarrow>
               (set_version_from e (fedora_vp self) html self, warned)))"

definition PackageFedora ::
  "env \<Rightarrow> string \<Rightarrow> string \<Rightarrow> string option \<Rightarrow> string option \<Rightarrow> package run" where
  "PackageFedora e repository' name' distro_release' source_package' =
     Package_init (fedora_update e)
       (new_object\<lparr>source_package :=
          Some (case source_package' of Some sp \<Rightarrow> sp | None \<Rightarrow> name')\<rparr>)
       repository' name' (Some ''Fedora'') (Some (or_default ''37'' distro_release'))"

subsection \<open>FlatHub\<close>

text \<open>\<open>rb'<h3 class="my-0">Changes in version (.*?)</h3>'\<close>\<close>

definition flathub_vp :: "item list" where
  \<open>flathub_vp =
     [Lit ''<h3 class="my-0">Changes in version '',
      Group Lazy_star Any_but_newline,
      Lit ''</h3>'']\<close>

text \<open>\<open>rb'<div class="text-sm" title="([0-9]{1,2})/([0-9]{1,2})/([0-9]{4})">.*?</div>'\<close>\<close>

definition flathub_up :: "item list" where
  \<open>flathub_up =
     [Lit ''<div class="text-sm" title="'',
      Group (Greedy 1 2) Digit, Lit ''/'',
      Group (Greedy 1 2) Digit, Lit ''/'',
      Group (Greedy 4 4) Digit, Lit ''">'',
      Plain Lazy_star Any_but_newline,
      Lit ''</div>'']\<close>

text \<open>\<open>re.search\<close> with one of these two patterns: every group takes part in a match.\<close>

definition search_const :: "item list \<Rightarrow> string \<Rightarrow> match option" where
  "search_const p html = map_option (map Some) (scan p html)"

definition flathub_version :: "string \<Rightarrow> package \<Rightarrow> exn + package" where
  "flathub_version html self =
     (case search_const flathub_vp html of
        None \<Rightarrow> Inr self
      | Some m \<Rightarrow>
          (case group_decode m 1 of
             Inl x \<Rightarrow> Inl x
           | Inr v \<Rightarrow> Inr (self\<lparr>version := PStr v\<rparr>)))"

definition flathub_date :: "string \<Rightarrow> package \<Rightarrow> exn + package" where
  "flathub_date html self =
     (case search_const flathub_up html of
        None \<Rightarrow> Inr self
      | Some m \<Rightarrow>
          (case group_decode m 1 of
             Inl x \<Rightarrow> Inl x
           | Inr month \<Rightarrow>
               (case group_decode m 2 of
                  Inl x \<Rightarrow> Inl x
                | Inr day \<Rightarrow>
                    (case group_decode m 3 of
                       Inl x \<Rightarrow> Inl x
                     | Inr year \<Rightarrow>
                         Inr (self\<lparr>last_updated := year @ ''-'' @ month @ ''-'' @ day\<rparr>)))))"

definition flathub_extract :: "string \<Rightarrow> package \<Rightarrow> exn + package" where
  "flathub_extract html self =
     (case flathub_version html self of
        Inl x \<Rightarrow> Inl x
      | Inr self' \<Rightarrow> flathub_date html self')"

definition flathub_url :: "package \<Rightarrow> string" where
  "flathub_url self = ''https://beta.flathub.org/apps/details/'' @ name self"

definition flathub_update :: "env \<Rightarrow> package \<Rightarrow> package run" where
  "flathub_update e self =
     (case url_content e (flathub_url self) of
        (Inl x, warned) \<Rightarrow> (Inl x, warned)
      | (Inr None, warned) \<Rightarrow> (Inr self, warned)
      | (Inr (Some html), warned) \<Rightarrow> (flathub_extract html self, warned))"

definition PackageFlatPackFlatHub :: "env \<Rightarrow> string \<Rightarrow> package run" where
  "PackageFlatPackFlatHub e name' =
     Package_init (flathub_update e) new_object ''flathub'' name' (Some ''flatpak'') None"

section \<open>The report\<close>

text \<open>What the program has written: standard output, and the logged warnings.\<close>

record world =
  stdout :: string
  warnings :: "string list"

text \<open>\<open>print(s)\<close>\<close>

definition print :: "string \<Rightarrow> world \<Rightarrow> world" where
  "print s w = w\<lparr>stdout := stdout w @ s @ [CHR 0x0A]\<rparr>"

definition warn :: "string list \<Rightarrow> world \<Rightarrow> world" where
  "warn warned w = w\<lparr>warnings := warnings w @ warned\<rparr>"

definition hline :: string where
  "hline = replicate (15 + 15 + 15 + 15) CHR ''-''"

text \<open>\<open>'{:<15}{:<15}{:<15}{:<15}'.format(a, b, c, d)\<close>\<close>

definition format_row :: "string \<Rightarrow> string \<Rightarrow> string \<Rightarrow> string \<Rightarrow> string" where
  "format_row a b c d = ljust 15 a @ ljust 15 b @ ljust 15 c @ ljust 15 d"

definition package_row :: "env \<Rightarrow> package \<Rightarrow> string" where
  "package_row e p =
     format_row (distro p @ '' '' @ distro_release p) (repository p)
       (py_str e (version p)) (last_updated p)"

fun print_rows :: "env \<Rightarrow> package list \<Rightarrow> world \<Rightarrow> world" where
  "print_rows e [] w = w"
| "print_rows e (p # packages) w = print_rows e packages (print (package_row e p) (print hline w))"

text \<open>\<open>_pprint\<close>\<close>

definition pprint :: "env \<Rightarrow> package list \<Rightarrow> world \<Rightarrow> world" where
  "pprint e packages w =
     print_rows e packages (print (format_row ''distro'' ''repository'' ''version'' ''last updated'') w)"

section \<open>The command line\<close>

text \<open>
  A list display \<open>[c1, c2, ...]\<close> of constructor calls: they run from left to right,
  and the first exception ends the evaluation.
\<close>

fun collect :: "package run list \<Rightarrow> package list run" where
  "collect [] = (Inr [], [])"
| "collect ((Inl x, warned) # calls) = (Inl x, warned)"
| "collect ((Inr p, warned) # calls) =
     (case collect calls of
        (Inl x, warned') \<Rightarrow> (Inl x, warned @ warned')
      | (Inr packages, warned') \<Rightarrow> (Inr (p # packages), warned @ warned'))"

text \<open>A statement: the exception it raised, if any, and the world it leaves.\<close>

type_synonym stmt = "world \<Rightarrow> exn option \<times> world"

text \<open>\<open>_pprint([c1, c2, ...])\<close>\<close>

definition report :: "env \<Rightarrow> package run list \<Rightarrow> stmt" where
  "report e calls w =
     (case collect calls of
        (Inl x, warned) \<Rightarrow> (Some x, warn warned w)
      | (Inr packages, warned) \<Rightarrow> (None, pprint e packages (warn warned w)))"

definition skip :: stmt where
  "skip w = (None, w)"

text \<open>Statements in sequence.\<close>

fun block :: "stmt list \<Rightarrow> stmt" where
  "block [] w = (None, w)"
| "block (st # sts) w = (case st w of (Some x, w') \<Rightarrow> (Some x, w') | (None, w') \<Rightarrow> block sts w')"

text \<open>
  The namespace \<open>parser.parse_args()\<close> returns: \<open>packages\<close> and \<open>search\<close> are
  \<open>None\<close> when the option is absent, a list of its arguments otherwise.
\<close>

record args =
  packages :: "string list option"
  all :: bool
  search :: "string list option"

definition SOFTWARE :: "string list" where
  "SOFTWARE = [''firefox'', ''thunderbird'', ''libreoffice'', ''inkscape'', ''mesa'']"

text \<open>\<open>if x:\<close> for an optional list\<close>

definition truthy :: "'a list option \<Rightarrow> bool" where
  "truthy x = (case x of Some (_ # _) \<Rightarrow> True | _ \<Rightarrow> False)"

definition selection :: "args \<Rightarrow> string list" where
  "selection a =
     (let selected_packages = [];
          selected_packages = (if truthy (packages a) then the (packages a) else selected_packages);
          selected_packages = (if all a then SOFTWARE else selected_packages)
      in selected_packages)"

definition search_section :: "env \<Rightarrow> args \<Rightarrow> stmt" where
  "search_section e a =
     (case search a of
        Some (term0 # _) \<Rightarrow>
          report e
            [PackageArchLinux e ''core'' term0,
             PackageArchLinux e ''extra'' term0,
             PackageArchLinux e ''community'' term0,
             PackageArchLinux e ''multilib'' term0,
             PackageArchLinux e ''testing'' term0,
             PackageArchLinux e ''community-testing'' term0,
             PackageDebian e ''unstable'' term0,
             PackageDebian e ''testing'' term0,
             PackageDebian e ''stable'' term0,
             PackageFedora e ''stable'' term0 None None,
             PackageFedora e ''stable'' term0 (Some ''36'') None,
             PackageFlatPackFlatHub e term0]
      | _ \<Rightarrow> skip)"

definition firefox_section :: "env \<Rightarrow> string list \<Rightarrow> stmt" where
  "firefox_section e selected_packages =
     (if ''firefox'' \<in> set selected_packages then
        block
          [\<lambda>w. (None, print ''\<newline>Firefox:'' w),
           report e
             [PackageArchLinux e ''extra'' ''firefox'',
              PackageDebian e ''unstable'' ''firefox'',
              PackageDebian e ''testing'' ''firefox'',
              PackageDebian e ''stable'' ''firefox'',
              PackageFedora e ''stable'' ''firefox'' None None,
              PackageFlatPackFlatHub e ''org.mozilla.firefox'']]
      else skip)"

definition thunderbird_section :: "env \<Rightarrow> string list \<Rightarrow> stmt" where
  "thunderbird_section e selected_packages =
     (if ''thunderbird'' \<in> set selected_packages then
        block
          [\<lambda>w. (None, print ''\<newline>Thunderbird:'' w),
           report e
             [PackageArchLinux e ''extra'' ''thunderbird'',
              PackageDebian e ''unstable'' ''thunderbird'',
              PackageDebian e ''testing'' ''thunderbird'',
              PackageDebian e ''stable'' ''thunderbird'',
              PackageFedora e ''stable'' ''thunderbird'' None None,
              PackageFlatPackFlatHub e ''org.mozilla.Thunderbird'']]
      else skip)"

definition libreoffice_section :: "env \<Rightarrow> string list \<Rightarrow> stmt" where
  "libreoffice_section e selected_packages =
     (if ''libreoffice'' \<in> set selected_packages then
        block
          [\<lambda>w. (None, print ''\<newline>LibreOffice:'' w),
           report e
             [PackageArchLinux e ''extra'' ''libreoffice-fresh'',
              PackageArchLinux e ''extra'' ''libreoffice-still'',
              PackageDebian e ''unstable'' ''libreoffice'',
              PackageDebian e ''testing'' ''libreoffice'',
              PackageDebian e ''stable'' ''libreoffice'',
              PackageFedora e ''stable'' ''libreoffice'' None None,
              PackageFlatPackFlatHub e ''org.libreoffice.LibreOffice'']]
      else skip)"

definition inkscape_section :: "env \<Rightarrow> string list \<Rightarrow> stmt" where
  "inkscape_section e selected_packages =
     (if ''inkscape'' \<in> set selected_packages then
        block
          [\<lambda>w. (None, print ''\<newline>Inkscape:'' w),
           report e
             [PackageArchLinux e ''extra'' ''inkscape'',
              PackageDebian e ''unstable'' ''inkscape'',
              PackageDebian e ''testing'' ''inkscape'',
              PackageDebian e ''stable'' ''inkscape'',
              PackageFedora e ''stable'' ''inkscape'' None None,
              PackageFlatPackFlatHub e ''org.inkscape.Inkscape'']]
      else skip)"

definition mesa_section :: "env \<Rightarrow> string list \<Rightarrow> stmt" where
  "mesa_section e selected_packages =
     (if ''mesa'' \<in> set selected_packages then
        block
          [\<lambda>w. (None, print ''\<newline>Mesa:'' w),
           report e
             [PackageArchLinux e ''extra'' ''mesa'',
              PackageDebian e ''unstable'' ''mesa'',
              PackageDebian e ''testing'' ''mesa'',
              PackageDebian e ''stable'' ''mesa'',
              PackageFedora e ''stable'' ''mesa-libGL'' None (Some ''mesa'')]]
      else skip)"

text \<open>\<open>main\<close>, after the arguments are parsed.\<close>

definition main :: "env \<Rightarrow> args \<Rightarrow> stmt" where
  "main e a =
     block
       [search_section e a,
        firefox_section e (selection a),
        thunderbird_section e (selection a),
        libreoffice_section e (selection a),
        inkscape_section e (selection a),
        mesa_section e (selection a)]"

section \<open>Notions and inputs used in the statements\<close>

text \<open>The fetch of \<open>url\<close> yields no content: a not-found status or a transport failure.\<close>

definition no_content :: "env \<Rightarrow> string \<Rightarrow> bool" where
  "no_content e url \<longleftrightarrow> urlopen e url = Inl HTTPError \<or> urlopen e url = Inl URLError"

text \<open>A machine without network: every request fails at the transport level.\<close>

definition offline :: env where
  "offline =
     \<lparr>urlopen = (\<lambda>url. Inl URLError), json_loads = (\<lambda>b. Inl JSONDecodeError),
      re_search = (\<lambda>p t. Inr None), repr = (\<lambda>v. [])\<rparr>"

text \<open>
  Every request is answered with \<open>body\<close>, which \<open>json.loads\<close> parses to \<open>parsed\<close>;
  patterns built from a package name match nowhere.
\<close>

definition serving :: "string \<Rightarrow> exn + pyval \<Rightarrow> env" where
  "serving body parsed =
     \<lparr>urlopen = (\<lambda>url. Inr body),
      json_loads = (\<lambda>b. if b = body then parsed else Inl JSONDecodeError),
      re_search = (\<lambda>p t. Inr None), repr = (\<lambda>v. [])\<rparr>"

text \<open>The state before the program has written anything.\<close>

definition silent :: world where
  "silent = \<lparr>stdout = [], warnings = []\<rparr>"

text \<open>An ArchLinux response whose two fields are padded with spaces.\<close>

definition padded_reply :: env where
  \<open>padded_reply =
     serving ''{"pkgver": " 115.0 ", "last_update": " 2024-01-01 "}''
       (Inr (PDict [(''pkgver'', PStr '' 115.0 ''), (''last_update'', PStr '' 2024-01-01 '')]))\<close>

text \<open>The example of the specification: only \<open>last_update\<close> is padded.\<close>

definition example_reply :: env where
  \<open>example_reply =
     serving ''{"pkgver": "115.0", "last_update": " 2024-01-01 "}''
       (Inr (PDict [(''pkgver'', PStr ''115.0''), (''last_update'', PStr '' 2024-01-01 '')]))\<close>

text \<open>A site that answers every request with a page holding none of the patterns.\<close>

definition maintenance_page :: string where
  "maintenance_page = ''<html><body><h1>Down for maintenance</h1></body></html>''"

definition maintenance :: env where
  "maintenance = serving maintenance_page (Inl JSONDecodeError)"

text \<open>The text \<open>_pprint(packages)\<close> writes.\<close>

definition printed :: "env \<Rightarrow> package list \<Rightarrow> string" where
  "printed e pkgs = stdout (pprint e pkgs silent)"

text \<open>Command lines used as examples.\<close>

definition only_search :: args where
  "only_search = \<lparr>packages = None, all = False, search = Some [''vim'']\<rparr>"

definition only_all :: args where
  "only_all = \<lparr>packages = None, all = True, search = None\<rparr>"

text \<open>
  \<open>starts_in lit pre rest\<close>: in the text \<open>pre @ rest\<close>, an occurrence of \<open>lit\<close> begins
  at one of the positions of \<open>pre\<close>.
\<close>

fun starts_in :: "string \<Rightarrow> string \<Rightarrow> string \<Rightarrow> bool" where
  "starts_in lit [] rest = False"
| "starts_in lit (c # pre) rest = (prefix lit (c # pre @ rest) \<or> starts_in lit pre rest)"

text \<open>A FlatHub page with a version heading and a date in the element the program reads.\<close>

definition app_page :: string where
  \<open>app_page =
     ''<html>'' @ ''<h3 class="my-0">Changes in version '' @ ''1.2.3'' @ ''</h3>''
       @ ''<p><div class="text-sm" title="3/4/2024">5 months ago</div></p></html>''\<close>

text \<open>A page with the same heading whose date is the \<open>title\<close> attribute of another element.\<close>

definition other_title_page :: string where
  \<open>other_title_page =
     ''<h3 class="my-0">Changes in version '' @ ''1.2.3'' @ ''</h3>''
       @ ''<span '' @ ''title="3/4/2024"'' @ ''>5 months ago</span>''\<close>

text \<open>
  A site that answers with the maintenance page, and a regex library that rejects the
  Debian pattern built from the name \<open>lib(\<close>, whose first parenthesis is never closed,
  as Python's does with \<open>re.error\<close>.
\<close>

definition unbalanced :: env where
  "unbalanced =
     \<lparr>urlopen = (\<lambda>url. Inr maintenance_page),
      json_loads = (\<lambda>b. Inl JSONDecodeError),
      re_search = (\<lambda>pat text.
        if pat = ''<h1>Source Package: lib( '' @ [CHR 0x5C] @ ''((.*?)'' @ [CHR 0x5C] @ '')''
                   @ [CHR 0x0A] @ ''</h1>''
        then Inl RegexError else Inr None),
      repr = (\<lambda>v. [])\<rparr>"

text \<open>A FlatHub page whose version heading holds a byte that is not UTF-8, and no date.\<close>

definition bad_heading_page :: string where
  \<open>bad_heading_page = ''<h3 class="my-0">Changes in version '' @ [CHR 0xFF] @ ''</h3>''\<close>

text \<open>
  A server that closes every connection without an answer: \<open>urlopen\<close> raises
  \<open>http.client.RemoteDisconnected\<close>, which is neither an \<open>HTTPError\<close> nor a \<open>URLError\<close>.
\<close>

definition dropping :: env where
  "dropping =
     \<lparr>urlopen = (\<lambda>url. Inl (OtherException ''RemoteDisconnected'')),
      json_loads = (\<lambda>b. Inl JSONDecodeError),
      re_search = (\<lambda>p t. Inr None), repr = (\<lambda>v. [])\<rparr>"

text \<open>
  A machine without network on which, as in Python, a URL with a space is refused
  before any request is made: \<open>urlopen\<close> raises \<open>http.client.InvalidURL\<close>.
\<close>

definition refusing_spaces :: env where
  "refusing_spaces =
     \<lparr>urlopen = (\<lambda>url. if CHR '' '' \<in> set url then Inl (OtherException ''InvalidURL'')
                       else Inl URLError),
      json_loads = (\<lambda>b. Inl JSONDecodeError),
      re_search = (\<lambda>p t. Inr None), repr = (\<lambda>v. [])\<rparr>"

text \<open>An instance whose \<open>version\<close> and \<open>last_updated\<close> stayed empty.\<close>

definition unresolved :: "string \<Rightarrow> string \<Rightarrow> string \<Rightarrow> string \<Rightarrow> string option \<Rightarrow> package" where
  "unresolved d rel r n sp =
     \<lparr>repository = r, name = n, distro = d, distro_release = rel,
      version = PStr [], last_updated = [], source_package = sp\<rparr>"

definition search_a_b :: args where
  "search_a_b = \<lparr>packages = None, all = False, search = Some [''a b'']\<rparr>"

definition mesa_and_all :: args where
  "mesa_and_all = \<lparr>packages = Some [''mesa''], all = True, search = None\<rparr>"

section \<open>Fetching\<close>

lemma url_content_no_content:
  "no_content e url \<Longrightarrow> fst (url_content e url) = Inr None"
  by (auto simp: no_content_def url_content_def)

lemma url_content_body:
  "urlopen e url = Inr body \<Longrightarrow> url_content e url = (Inr (Some body), [])"
  by (simp add: url_content_def)

lemma arch_no_content:
  assumes "no_content e (''https://archlinux.org/packages/'' @ r @ ''/x86_64/'' @ n @ ''/json/'')"
  shows "\<exists>p. fst (PackageArchLinux e r n) = Inr p \<and> version p = PStr [] \<and> last_updated p = []"
  using url_content_no_content [OF assms]
  by (auto simp: PackageArchLinux_def Package_init_def arch_update_def arch_url_def new_object_def
      split: prod.splits sum.splits option.splits)

lemma debian_no_content:
  assumes "no_content e (''https://packages.debian.org/source/'' @ r @ ''/'' @ n)"
  shows "\<exists>p. fst (PackageDebian e r n) = Inr p \<and> version p = PStr [] \<and> last_updated p = []"
  using url_content_no_content [OF assms]
  by (auto simp: PackageDebian_def Package_init_def debian_update_def debian_url_def new_object_def
      split: prod.splits sum.splits option.splits)

lemma fedora_no_content:
  assumes "no_content e
     (''https://packages.fedoraproject.org/pkgs/'' @ or_default n sp @ ''/'' @ n @ ''/'')"
  shows "\<exists>p. fst (PackageFedora e r n dr sp) = Inr p \<and> version p = PStr [] \<and> last_updated p = []"
  using url_content_no_content [OF assms]
  by (auto simp: PackageFedora_def Package_init_def fedora_update_def fedora_url_def new_object_def
      the_source_package_def or_default_def
      split: prod.splits sum.splits option.splits)

lemma flathub_no_content:
  assumes "no_content e (''https://beta.flathub.org/apps/details/'' @ n)"
  shows "\<exists>p. fst (PackageFlatPackFlatHub e n) = Inr p \<and> version p = PStr [] \<and> last_updated p = []"
  using url_content_no_content [OF assms]
  by (auto simp: PackageFlatPackFlatHub_def Package_init_def flathub_update_def flathub_url_def
      new_object_def
      split: prod.splits sum.splits option.splits)

text \<open>
  Claim C4. For each of the four variants: when the fetch of the variant's URL yields
  no content (\<open>HTTPError\<close> or \<open>URLError\<close>), the constructor returns an instance, without
  raising, whose \<open>version\<close> and \<open>last_updated\<close> are the empty string.
\<close>

theorem no_content_keeps_fields_empty:
  "(no_content e (''https://archlinux.org/packages/'' @ r @ ''/x86_64/'' @ n @ ''/json/'') \<longrightarrow>
      (\<exists>p. fst (PackageArchLinux e r n) = Inr p \<and> version p = PStr [] \<and> last_updated p = []))
   \<and> (no_content e (''https://packages.debian.org/source/'' @ r @ ''/'' @ n) \<longrightarrow>
      (\<exists>p. fst (PackageDebian e r n) = Inr p \<and> version p = PStr [] \<and> last_updated p = []))
   \<and> (no_content e
        (''https://packages.fedoraproject.org/pkgs/'' @ or_default n sp @ ''/'' @ n @ ''/'') \<longrightarrow>
      (\<exists>p. fst (PackageFedora e r n dr sp) = Inr p \<and> version p = PStr [] \<and> last_updated p = []))
   \<and> (no_content e (''https://beta.flathub.org/apps/details/'' @ n) \<longrightarrow>
      (\<exists>p. fst (PackageFlatPackFlatHub e n) = Inr p \<and> version p = PStr [] \<and> last_updated p = []))"
  using arch_no_content debian_no_content fedora_no_content flathub_no_content by blast

theorem no_content_keeps_fields_empty_witness:
  "no_content offline (''https://archlinux.org/packages/'' @ ''extra'' @ ''/x86_64/'' @ ''mesa'' @ ''/json/'')
   \<and> (\<exists>p. fst (PackageArchLinux offline ''extra'' ''mesa'') = Inr p
          \<and> version p = PStr [] \<and> last_updated p = [])
   \<and> no_content offline (''https://packages.debian.org/source/'' @ ''extra'' @ ''/'' @ ''mesa'')
   \<and> (\<exists>p. fst (PackageDebian offline ''extra'' ''mesa'') = Inr p
          \<and> version p = PStr [] \<and> last_updated p = [])
   \<and> no_content offline
        (''https://packages.fedoraproject.org/pkgs/'' @ or_default ''mesa'' None @ ''/'' @ ''mesa'' @ ''/'')
   \<and> (\<exists>p. fst (PackageFedora offline ''extra'' ''mesa'' None None) = Inr p
          \<and> version p = PStr [] \<and> last_updated p = [])
   \<and> no_content offline (''https://beta.flathub.org/apps/details/'' @ ''mesa'')
   \<and> (\<exists>p. fst (PackageFlatPackFlatHub offline ''mesa'') = Inr p
          \<and> version p = PStr [] \<and> last_updated p = [])"
  using no_content_keeps_fields_empty [of offline "''extra''" "''mesa''" None None]
  by (simp add: no_content_def offline_def)

section \<open>Fields set by the constructors\<close>

lemma arch_update_keeps:
  assumes "fst (arch_update e self) = Inr p"
  shows "p = self\<lparr>version := version p, last_updated := last_updated p\<rparr>"
  using assms
  by (auto simp: arch_update_def arch_extract_def split: prod.splits sum.splits option.splits)

lemma set_version_from_keeps:
  assumes "set_version_from e vp html self = Inr p"
  shows "p = self\<lparr>version := version p\<rparr>"
  using assms
  by (auto simp: set_version_from_def split: sum.splits option.splits)

lemma debian_update_keeps:
  assumes "fst (debian_update e self) = Inr p"
  shows "p = self\<lparr>version := version p\<rparr>"
  using assms set_version_from_keeps
  by (auto simp: debian_update_def split: prod.splits sum.splits option.splits)

lemma fedora_update_keeps:
  assumes "fst (fedora_update e self) = Inr p"
  shows "p = self\<lparr>version := version p\<rparr>"
  using assms set_version_from_keeps
  by (auto simp: fedora_update_def split: prod.splits sum.splits option.splits)

lemma flathub_update_keeps:
  assumes "fst (flathub_update e self) = Inr p"
  shows "p = self\<lparr>version := version p, last_updated := last_updated p\<rparr>"
  using assms
  by (auto simp: flathub_update_def flathub_extract_def flathub_version_def flathub_date_def
      split: prod.splits sum.splits option.splits)

lemma PackageArchLinux_fields:
  assumes "fst (PackageArchLinux e r n) = Inr p"
  shows "repository p = r \<and> name p = n \<and> distro p = ''ArchLinux'' \<and> distro_release p = []"
proof -
  from assms have "p = (new_object\<lparr>repository := r, name := n, distro := ''ArchLinux'',
      distro_release := [], version := PStr [], last_updated := []\<rparr>)
      \<lparr>version := version p, last_updated := last_updated p\<rparr>"
    unfolding PackageArchLinux_def Package_init_def or_default_def
    by (auto dest!: arch_update_keeps)
  then show ?thesis
    by (cases p) auto
qed

lemma PackageDebian_fields:
  assumes "fst (PackageDebian e r n) = Inr p"
  shows "repository p = r \<and> name p = n \<and> distro p = ''Debian'' \<and> distro_release p = []"
proof -
  from assms have "p = (new_object\<lparr>repository := r, name := n, distro := ''Debian'',
      distro_release := [], version := PStr [], last_updated := []\<rparr>)\<lparr>version := version p\<rparr>"
    unfolding PackageDebian_def Package_init_def or_default_def
    by (auto dest!: debian_update_keeps)
  then show ?thesis
    by (cases p) auto
qed

lemma PackageFedora_fields:
  assumes "fst (PackageFedora e r n dr sp) = Inr p"
  shows "repository p = r \<and> name p = n \<and> distro p = ''Fedora''
    \<and> distro_release p = or_default ''37'' dr \<and> source_package p = Some (or_default n sp)"
proof -
  from assms have "p = (new_object\<lparr>source_package := Some (case sp of Some s \<Rightarrow> s | None \<Rightarrow> n),
      repository := r, name := n, distro := ''Fedora'', distro_release := or_default ''37'' dr,
      version := PStr [], last_updated := []\<rparr>)\<lparr>version := version p\<rparr>"
    unfolding PackageFedora_def Package_init_def or_default_def
    by (auto dest!: fedora_update_keeps)
  then show ?thesis
    by (cases p) (auto simp: or_default_def split: option.splits)
qed

lemma PackageFlatPackFlatHub_fields:
  assumes "fst (PackageFlatPackFlatHub e n) = Inr p"
  shows "repository p = ''flathub'' \<and> name p = n \<and> distro p = ''flatpak'' \<and> distro_release p = []"
proof -
  from assms have "p = (new_object\<lparr>repository := ''flathub'', name := n, distro := ''flatpak'',
      distro_release := [], version := PStr [], last_updated := []\<rparr>)
      \<lparr>version := version p, last_updated := last_updated p\<rparr>"
    unfolding PackageFlatPackFlatHub_def Package_init_def or_default_def
    by (auto dest!: flathub_update_keeps)
  then show ?thesis
    by (cases p) auto
qed

text \<open>
  Claim C9. An instance built by \<open>PackageFedora\<close> without the \<open>distro_release\<close>
  argument has \<open>distro_release = "37"\<close>, so the pattern its \<open>update\<close> builds is the
  one keyed by \<open>fedora-37.html\<close>; an instance built without the \<open>source_package\<close>
  argument has \<open>source_package\<close> equal to \<open>name\<close>.
\<close>

theorem fedora_defaults:
  \<open>(fst (PackageFedora e r n None sp) = Inr p \<longrightarrow>
      distro_release p = ''37'' \<and> fedora_vp p = ''<a href="fedora-37.html">(.*?)</a>'')
   \<and> (fst (PackageFedora e r n dr None) = Inr p \<longrightarrow> source_package p = Some n)\<close>
  using PackageFedora_fields [of e r n None sp p] PackageFedora_fields [of e r n dr None p]
  by (simp add: or_default_def fedora_vp_def)

theorem fedora_defaults_witness:
  \<open>fst (PackageFedora offline ''stable'' ''inkscape'' None None) =
     Inr \<lparr>repository = ''stable'', name = ''inkscape'', distro = ''Fedora'',
          distro_release = ''37'', version = PStr [], last_updated = [],
          source_package = Some ''inkscape''\<rparr>
   \<and> distro_release \<lparr>repository = ''stable'', name = ''inkscape'', distro = ''Fedora'',
          distro_release = ''37'', version = PStr [], last_updated = [],
          source_package = Some ''inkscape''\<rparr> = ''37''
   \<and> fedora_vp \<lparr>repository = ''stable'', name = ''inkscape'', distro = ''Fedora'',
          distro_release = ''37'', version = PStr [], last_updated = [],
          source_package = Some ''inkscape''\<rparr> = ''<a href="fedora-37.html">(.*?)</a>''
   \<and> source_package \<lparr>repository = ''stable'', name = ''inkscape'', distro = ''Fedora'',
          distro_release = ''37'', version = PStr [], last_updated = [],
          source_package = Some ''inkscape''\<rparr> = Some ''inkscape''\<close>
  using fedora_defaults [of offline "''stable''" "''inkscape''" None
      "\<lparr>repository = ''stable'', name = ''inkscape'', distro = ''Fedora'',
        distro_release = ''37'', version = PStr [], last_updated = [],
        source_package = Some ''inkscape''\<rparr>" None]
  by (simp add: PackageFedora_def Package_init_def fedora_update_def the_source_package_def
      url_content_def offline_def new_object_def or_default_def)

section \<open>Selection\<close>

lemma selection_all: "all a \<Longrightarrow> selection a = SOFTWARE"
  by (simp add: selection_def)

lemma selection_none: "\<not> truthy (packages a) \<Longrightarrow> \<not> all a \<Longrightarrow> selection a = []"
  by (simp add: selection_def)

lemma search_section_skip: "\<not> truthy (search a) \<Longrightarrow> search_section e a = skip"
  by (auto simp: search_section_def truthy_def split: option.splits list.splits)

section \<open>ArchLinux: a response without the expected keys\<close>

text \<open>
  Claim C1 says that a response in which \<open>pkgver\<close> or \<open>last_update\<close> is absent
  leaves the field empty and raises nothing. The program indexes the parsed object
  without a check: on the body \<open>{}\<close> the constructor raises \<open>KeyError('pkgver')\<close>, and
  on a body with \<open>pkgver\<close> but no \<open>last_update\<close> it raises \<open>KeyError('last_update')\<close>.
\<close>

theorem arch_missing_key_raises:
  \<open>PackageArchLinux (serving ''{}'' (Inr (PDict []))) ''extra'' ''firefox''
     = (Inl (KeyError ''pkgver''), [])
   \<and> PackageArchLinux
       (serving ''{"pkgver": "115.0"}'' (Inr (PDict [(''pkgver'', PStr ''115.0'')])))
       ''extra'' ''firefox''
     = (Inl (KeyError ''last_update''), [])\<close>
  by (simp add: PackageArchLinux_def Package_init_def arch_update_def arch_extract_def
      url_content_def serving_def)

section \<open>ArchLinux: a response with both keys\<close>

lemma arch_extract_both:
  assumes "json_loads e body = Inr (PDict kvs)"
    and "map_of kvs ''pkgver'' = Some v"
    and "map_of kvs ''last_update'' = Some (PStr u)"
  shows "arch_extract e body self = Inr (self\<lparr>version := v, last_updated := strip u\<rparr>)"
  using assms by (simp add: arch_extract_def)

lemma strip_example: "strip '' 2024-01-01 '' = ''2024-01-01''"
  by code_simp

lemma strip_padded: "strip '' 115.0 '' = ''115.0''"
  by code_simp

text \<open>
  Claim C2, as stated, fails: \<open>version\<close> is the \<open>pkgver\<close> value as it is, not
  trimmed. On a response with \<open>"pkgver": " 115.0 "\<close> the instance has
  \<open>version = " 115.0 "\<close>, which differs from the trimmed value.
\<close>

theorem arch_version_not_trimmed_counterexample:
  \<open>fst (PackageArchLinux padded_reply ''extra'' ''firefox'') =
     Inr \<lparr>repository = ''extra'', name = ''firefox'', distro = ''ArchLinux'',
          distro_release = [], version = PStr '' 115.0 '', last_updated = ''2024-01-01'',
          source_package = None\<rparr>
   \<and> PStr '' 115.0 '' \<noteq> PStr (strip '' 115.0 '')\<close>
  by (simp add: PackageArchLinux_def Package_init_def arch_update_def arch_extract_def
      url_content_def serving_def padded_reply_def new_object_def or_default_def
      strip_example strip_padded)

text \<open>
  Claim C2, amended. When the fetched body parses to an object with string fields
  \<open>pkgver\<close> and \<open>last_update\<close>, the constructor returns an instance whose \<open>version\<close>
  is the \<open>pkgver\<close> value unchanged and whose \<open>last_updated\<close> is the \<open>last_update\<close>
  value with surrounding whitespace removed.
\<close>

theorem arch_fields_from_json:
  assumes "urlopen e (''https://archlinux.org/packages/'' @ r @ ''/x86_64/'' @ n @ ''/json/'') = Inr body"
    and "json_loads e body = Inr (PDict kvs)"
    and "map_of kvs ''pkgver'' = Some (PStr v)"
    and "map_of kvs ''last_update'' = Some (PStr u)"
  shows "\<exists>p. fst (PackageArchLinux e r n) = Inr p \<and> version p = PStr v \<and> last_updated p = strip u"
  using url_content_body [OF assms(1)] arch_extract_both [OF assms(2-4)]
  by (simp add: PackageArchLinux_def Package_init_def arch_update_def arch_url_def)

theorem arch_fields_from_json_witness:
  \<open>urlopen example_reply
       (''https://archlinux.org/packages/'' @ ''extra'' @ ''/x86_64/'' @ ''firefox'' @ ''/json/'')
     = Inr ''{"pkgver": "115.0", "last_update": " 2024-01-01 "}''
   \<and> json_loads example_reply ''{"pkgver": "115.0", "last_update": " 2024-01-01 "}''
     = Inr (PDict [(''pkgver'', PStr ''115.0''), (''last_update'', PStr '' 2024-01-01 '')])
   \<and> map_of [(''pkgver'', PStr ''115.0''), (''last_update'', PStr '' 2024-01-01 '')] ''pkgver''
     = Some (PStr ''115.0'')
   \<and> map_of [(''pkgver'', PStr ''115.0''), (''last_update'', PStr '' 2024-01-01 '')] ''last_update''
     = Some (PStr '' 2024-01-01 '')
   \<and> (\<exists>p. fst (PackageArchLinux example_reply ''extra'' ''firefox'') = Inr p
          \<and> version p = PStr ''115.0'' \<and> last_updated p = ''2024-01-01'')\<close>
proof -
  have a: \<open>urlopen example_reply
       (''https://archlinux.org/packages/'' @ ''extra'' @ ''/x86_64/'' @ ''firefox'' @ ''/json/'')
     = Inr ''{"pkgver": "115.0", "last_update": " 2024-01-01 "}''\<close>
    by (simp add: example_reply_def serving_def)
  have b: \<open>json_loads example_reply ''{"pkgver": "115.0", "last_update": " 2024-01-01 "}''
     = Inr (PDict [(''pkgver'', PStr ''115.0''), (''last_update'', PStr '' 2024-01-01 '')])\<close>
    by (simp add: example_reply_def serving_def)
  have c: "map_of [(''pkgver'', PStr ''115.0''), (''last_update'', PStr '' 2024-01-01 '')] ''pkgver''
     = Some (PStr ''115.0'')"
    by simp
  have d: "map_of [(''pkgver'', PStr ''115.0''), (''last_update'', PStr '' 2024-01-01 '')] ''last_update''
     = Some (PStr '' 2024-01-01 '')"
    by simp
  from arch_fields_from_json [OF a b c d] a b c d show ?thesis
    by (simp only: strip_example)
qed

section \<open>What the constant patterns can match\<close>

lemma ascii_valid: "\<forall>c\<in>set s. byte c < 128 \<Longrightarrow> utf8_valid s"
  by (induction s) auto

lemma greedy_result:
  "greedy g cls lo hi p acc s = Some gs \<Longrightarrow>
     \<exists>taken rest gs'. matches p rest = Some gs' \<and> gs = capture g taken gs'
       \<and> (\<forall>c\<in>set taken. c \<in> set acc \<or> in_class cls c)"
proof (induction s arbitrary: lo hi acc)
  case Nil
  then show ?case
    by (auto split: if_splits)
next
  case (Cons c s)
  show ?case
  proof (cases "0 < hi \<and> in_class cls c")
    case True
    show ?thesis
    proof (cases "greedy g cls (lo - 1) (hi - 1) p (c # acc) s")
      case None
      with True Cons.prems show ?thesis
        by (auto split: if_splits)
    next
      case (Some r)
      with True Cons.prems have "r = gs" by simp
      with Some Cons.IH [of "lo - 1" "hi - 1" "c # acc"] True show ?thesis
        by fastforce
    qed
  next
    case False
    with Cons.prems show ?thesis
      by (auto split: if_splits)
  qed
qed

lemma lazy_result:
  "lazy g cls p acc s = Some gs \<Longrightarrow>
     \<exists>taken rest gs'. matches p rest = Some gs' \<and> gs = capture g taken gs'
       \<and> (\<forall>c\<in>set taken. c \<in> set acc \<or> in_class cls c)"
proof (induction s arbitrary: acc)
  case Nil
  then show ?case
    by (auto split: option.splits)
next
  case (Cons c s)
  show ?case
  proof (cases "matches p (c # s)")
    case (Some r)
    with Cons.prems show ?thesis by auto
  next
    case None
    with Cons.prems have "in_class cls c" and "lazy g cls p (c # acc) s = Some gs"
      by (auto split: if_splits)
    with Cons.IH [of "c # acc"] show ?thesis
      by fastforce
  qed
qed

lemma scan_some: "scan p s = Some gs \<Longrightarrow> \<exists>s'. matches p s' = Some gs"
  by (induction s) (auto split: option.splits)

lemma matches_flathub_up:
  assumes "matches flathub_up s = Some gs"
  shows "\<exists>M D Y. gs = [M, D, Y] \<and> (\<forall>c\<in>set (M @ D @ Y). in_class Digit c)"
proof -
  from assms obtain s1 where
    "greedy True Digit 1 2 [Lit ''/'', Group (Greedy 1 2) Digit, Lit ''/'',
       Group (Greedy 4 4) Digit, Lit [CHR 0x22, CHR ''>''], Plain Lazy_star Any_but_newline, Lit ''</div>''] [] s1 = Some gs"
    by (auto simp: flathub_up_def split: if_splits)
  from greedy_result [OF this] obtain M s2 g2 where
    m: "matches [Lit ''/'', Group (Greedy 1 2) Digit, Lit ''/'',
       Group (Greedy 4 4) Digit, Lit [CHR 0x22, CHR ''>''], Plain Lazy_star Any_but_newline, Lit ''</div>''] s2 = Some g2"
    and gs: "gs = rev M # g2" and M: "\<forall>c\<in>set M. in_class Digit c"
    by (auto simp: capture_def)
  from m obtain s3 where
    "greedy True Digit 1 2 [Lit ''/'',
       Group (Greedy 4 4) Digit, Lit [CHR 0x22, CHR ''>''], Plain Lazy_star Any_but_newline, Lit ''</div>''] [] s3 = Some g2"
    by (auto split: if_splits)
  from greedy_result [OF this] obtain D s4 g4 where
    m4: "matches [Lit ''/'',
       Group (Greedy 4 4) Digit, Lit [CHR 0x22, CHR ''>''], Plain Lazy_star Any_but_newline, Lit ''</div>''] s4 = Some g4"
    and g2: "g2 = rev D # g4" and D: "\<forall>c\<in>set D. in_class Digit c"
    by (auto simp: capture_def)
  from m4 obtain s5 where
    "greedy True Digit 4 4 [Lit [CHR 0x22, CHR ''>''], Plain Lazy_star Any_but_newline, Lit ''</div>''] [] s5 = Some g4"
    by (auto split: if_splits)
  from greedy_result [OF this] obtain Y s6 g6 where
    m6: "matches [Lit [CHR 0x22, CHR ''>''], Plain Lazy_star Any_but_newline, Lit ''</div>''] s6 = Some g6"
    and g4: "g4 = rev Y # g6" and Y: "\<forall>c\<in>set Y. in_class Digit c"
    by (auto simp: capture_def)
  from m6 obtain s7 where "lazy False Any_but_newline [Lit ''</div>''] [] s7 = Some g6"
    by (auto split: if_splits)
  from lazy_result [OF this] obtain s8 where "matches [Lit ''</div>''] s8 = Some g6"
    by (auto simp: capture_def)
  then have "g6 = []"
    by (auto split: if_splits)
  with gs g2 g4 M D Y show ?thesis
    by auto
qed

lemma digits_decode:
  assumes "\<forall>c\<in>set s. in_class Digit c"
  shows "decode s = Inr s"
proof -
  from assms have "\<forall>c\<in>set s. byte c < 128" by auto
  then show ?thesis by (simp add: decode_def ascii_valid)
qed

lemma flathub_date_total:
  "\<exists>p. flathub_date html self = Inr p \<and> version p = version self
     \<and> (scan flathub_up html = None \<longrightarrow> p = self)"
proof (cases "scan flathub_up html")
  case None
  then show ?thesis
    by (simp add: flathub_date_def search_const_def)
next
  case (Some gs)
  from scan_some [OF this] obtain s' where "matches flathub_up s' = Some gs" ..
  from matches_flathub_up [OF this] obtain M D Y where
    gs: "gs = [M, D, Y]" and dig: "\<forall>c\<in>set (M @ D @ Y). in_class Digit c"
    by blast
  from dig have "decode M = Inr M" "decode D = Inr D" "decode Y = Inr Y"
    by (simp_all add: digits_decode)
  with Some gs show ?thesis
    by (simp add: flathub_date_def search_const_def group_decode_def group_def)
qed

section \<open>A response without a match\<close>

lemma set_version_from_no_match:
  "re_search e vp html = Inr None \<Longrightarrow> set_version_from e vp html self = Inr self"
  by (simp add: set_version_from_def)

lemma debian_no_match:
  assumes "urlopen e (''https://packages.debian.org/source/'' @ r @ ''/'' @ n) = Inr html"
    and "re_search e
       (''<h1>Source Package: '' @ n @ '' '' @ [CHR 0x5C] @ ''((.*?)'' @ [CHR 0x5C] @ '')''
          @ [CHR 0x0A] @ ''</h1>'') html = Inr None"
  shows "\<exists>p. fst (PackageDebian e r n) = Inr p \<and> version p = PStr [] \<and> last_updated p = []"
  using url_content_body [OF assms(1)] set_version_from_no_match [OF assms(2)]
  by (simp add: PackageDebian_def Package_init_def debian_update_def debian_url_def debian_vp_def)

lemma fedora_no_match:
  assumes "urlopen e
       (''https://packages.fedoraproject.org/pkgs/'' @ or_default n sp @ ''/'' @ n @ ''/'') = Inr html"
    and \<open>re_search e (''<a href="fedora-'' @ or_default ''37'' dr @ ''.html">(.*?)</a>'') html
       = Inr None\<close>
  shows "\<exists>p. fst (PackageFedora e r n dr sp) = Inr p \<and> version p = PStr [] \<and> last_updated p = []"
  using url_content_body [OF assms(1)] set_version_from_no_match [OF assms(2)]
  by (cases sp)
    (simp_all add: PackageFedora_def Package_init_def fedora_update_def fedora_url_def fedora_vp_def
      the_source_package_def or_default_def)

lemma flathub_no_version_match:
  assumes "urlopen e (''https://beta.flathub.org/apps/details/'' @ n) = Inr html"
    and "scan flathub_vp html = None"
  shows "\<exists>p. fst (PackageFlatPackFlatHub e n) = Inr p \<and> version p = PStr []
     \<and> (scan flathub_up html = None \<longrightarrow> last_updated p = [])"
proof -
  let ?self = "new_object\<lparr>repository := ''flathub'', name := n, distro := ''flatpak'',
      distro_release := [], version := PStr [], last_updated := []\<rparr>"
  from assms(2) have v: "flathub_version html ?self = Inr ?self"
    by (simp add: flathub_version_def search_const_def)
  from flathub_date_total [of html ?self] obtain p where
    p: "flathub_date html ?self = Inr p" "version p = PStr []"
      "scan flathub_up html = None \<longrightarrow> p = ?self"
    by auto
  from p(3) have "scan flathub_up html = None \<longrightarrow> last_updated p = []"
    by auto
  with url_content_body [OF assms(1)] v p(1,2) show ?thesis
    by (simp add: PackageFlatPackFlatHub_def Package_init_def flathub_update_def flathub_url_def
        flathub_extract_def or_default_def)
qed

lemma matches_flathub_vp:
  assumes "matches flathub_vp s = Some gs"
  shows "\<exists>V. gs = [V]"
proof -
  from assms obtain s1 where "lazy True Any_but_newline [Lit ''</h3>''] [] s1 = Some gs"
    by (auto simp: flathub_vp_def split: if_splits)
  from lazy_result [OF this] obtain V s2 g2 where
    "matches [Lit ''</h3>''] s2 = Some g2" and "gs = rev V # g2"
    by (auto simp: capture_def)
  then show ?thesis
    by (auto split: if_splits)
qed

lemma flathub_no_date_match_valid:
  assumes "urlopen e (''https://beta.flathub.org/apps/details/'' @ n) = Inr html"
    and "scan flathub_up html = None"
    and "case scan flathub_vp html of None \<Rightarrow> True | Some gs \<Rightarrow> list_all utf8_valid gs"
  shows "\<exists>p. fst (PackageFlatPackFlatHub e n) = Inr p \<and> last_updated p = []"
proof (cases "scan flathub_vp html")
  case None
  from flathub_no_version_match [OF assms(1) None] assms(2) show ?thesis
    by auto
next
  case (Some gs)
  from scan_some [OF Some] obtain s' where "matches flathub_vp s' = Some gs" ..
  from matches_flathub_vp [OF this] obtain V where gs: "gs = [V]" ..
  with Some assms(3) have "decode V = Inr V"
    by (simp add: decode_def)
  with url_content_body [OF assms(1)] Some gs assms(2) show ?thesis
    by (simp add: PackageFlatPackFlatHub_def Package_init_def flathub_update_def flathub_url_def
        flathub_extract_def flathub_date_def flathub_version_def search_const_def
        group_decode_def group_def)
qed

text \<open>
  Claim C3, as stated, fails: a body without a match does not exclude an exception.
  With the name \<open>lib(\<close> the Debian pattern is not a regular expression and
  \<open>re.search\<close> raises on the maintenance page, which matches nothing. On a FlatHub page
  without a date, whose version heading is not UTF-8, decoding the version raises.
\<close>

theorem no_match_raises_counterexample:
  \<open>PackageDebian unbalanced ''stable'' ''lib('' = (Inl RegexError, [])
   \<and> scan flathub_up bad_heading_page = None
   \<and> PackageFlatPackFlatHub (serving bad_heading_page (Inl JSONDecodeError)) ''org.example.App''
       = (Inl UnicodeDecodeError, [])\<close>
proof -
  have d: "scan flathub_up bad_heading_page = None"
    by (simp add: flathub_up_def bad_heading_page_def)
  have v: "scan flathub_vp bad_heading_page = Some [[CHR 0xFF]]"
    by (simp add: flathub_vp_def bad_heading_page_def capture_def)
  have u: "decode [CHR 0xFF] = Inl UnicodeDecodeError"
    by (simp add: decode_def byte_def)
  have "PackageDebian unbalanced ''stable'' ''lib('' = (Inl RegexError, [])"
    by (simp add: PackageDebian_def Package_init_def debian_update_def debian_url_def
        debian_vp_def set_version_from_def url_content_def unbalanced_def)
  moreover from d v u have
    "PackageFlatPackFlatHub (serving bad_heading_page (Inl JSONDecodeError)) ''org.example.App''
       = (Inl UnicodeDecodeError, [])"
    by (simp add: PackageFlatPackFlatHub_def Package_init_def flathub_update_def flathub_url_def
        flathub_extract_def flathub_version_def search_const_def url_content_def serving_def
        group_decode_def group_def)
  ultimately show ?thesis
    using d by simp
qed

text \<open>
  Claim C3, amended. For the three variants that extract with a pattern and every
  fetched body:
  \<^item> Debian and Fedora: when \<open>re.search\<close> with the variant's pattern returns \<open>None\<close>
    (the pattern built from the name is a regular expression and matches nowhere),
    the constructor returns an instance, without raising, whose \<open>version\<close> and
    \<open>last_updated\<close> are empty;
  \<^item> FlatHub: when the version pattern does not match, the constructor returns an
    instance, without raising, whose \<open>version\<close> is empty, and whose \<open>last_updated\<close> is
    empty too when the date pattern does not match either;
  \<^item> FlatHub: when the date pattern does not match and the version text, if there
    is a match, is well-formed UTF-8, the constructor returns an instance, without
    raising, whose \<open>last_updated\<close> is empty.
\<close>

theorem no_match_keeps_fields_empty:
  \<open>(urlopen e (''https://packages.debian.org/source/'' @ r @ ''/'' @ n) = Inr html
      \<and> re_search e
          (''<h1>Source Package: '' @ n @ '' '' @ [CHR 0x5C] @ ''((.*?)'' @ [CHR 0x5C] @ '')''
             @ [CHR 0x0A] @ ''</h1>'') html = Inr None \<longrightarrow>
      (\<exists>p. fst (PackageDebian e r n) = Inr p \<and> version p = PStr [] \<and> last_updated p = []))
   \<and> (urlopen e
        (''https://packages.fedoraproject.org/pkgs/'' @ or_default n sp @ ''/'' @ n @ ''/'') = Inr html
      \<and> re_search e (''<a href="fedora-'' @ or_default ''37'' dr @ ''.html">(.*?)</a>'') html
          = Inr None \<longrightarrow>
      (\<exists>p. fst (PackageFedora e r n dr sp) = Inr p \<and> version p = PStr [] \<and> last_updated p = []))
   \<and> (urlopen e (''https://beta.flathub.org/apps/details/'' @ n) = Inr html
      \<and> scan flathub_vp html = None \<longrightarrow>
      (\<exists>p. fst (PackageFlatPackFlatHub e n) = Inr p \<and> version p = PStr []
         \<and> (scan flathub_up html = None \<longrightarrow> last_updated p = [])))
   \<and> (urlopen e (''https://beta.flathub.org/apps/details/'' @ n) = Inr html
      \<and> scan flathub_up html = None
      \<and> (case scan flathub_vp html of None \<Rightarrow> True | Some gs \<Rightarrow> list_all utf8_valid gs) \<longrightarrow>
      (\<exists>p. fst (PackageFlatPackFlatHub e n) = Inr p \<and> last_updated p = []))\<close>
  using debian_no_match [of e r n html] fedora_no_match [of e n sp html dr r]
    flathub_no_version_match [of e n html] flathub_no_date_match_valid [of e n html]
  by blast

lemma maintenance_page_no_version: "scan flathub_vp maintenance_page = None"
  by (simp add: flathub_vp_def maintenance_page_def)

lemma maintenance_page_no_date: "scan flathub_up maintenance_page = None"
  by (simp add: flathub_up_def maintenance_page_def)

lemma other_title_page_version: "scan flathub_vp other_title_page = Some [''1.2.3'']"
  by (simp add: flathub_vp_def other_title_page_def capture_def)

lemma other_title_page_no_date: "scan flathub_up other_title_page = None"
  by (simp add: flathub_up_def other_title_page_def)

theorem no_match_keeps_fields_empty_witness:
  \<open>urlopen maintenance (''https://packages.debian.org/source/'' @ ''stable'' @ ''/'' @ ''mesa'')
     = Inr maintenance_page
   \<and> re_search maintenance
        (''<h1>Source Package: '' @ ''mesa'' @ '' '' @ [CHR 0x5C] @ ''((.*?)'' @ [CHR 0x5C] @ '')''
           @ [CHR 0x0A] @ ''</h1>'') maintenance_page = Inr None
   \<and> (\<exists>p. fst (PackageDebian maintenance ''stable'' ''mesa'') = Inr p
          \<and> version p = PStr [] \<and> last_updated p = [])
   \<and> urlopen maintenance
        (''https://packages.fedoraproject.org/pkgs/'' @ or_default ''mesa'' None @ ''/'' @ ''mesa'' @ ''/'')
     = Inr maintenance_page
   \<and> re_search maintenance (''<a href="fedora-'' @ or_default ''37'' None @ ''.html">(.*?)</a>'')
        maintenance_page = Inr None
   \<and> (\<exists>p. fst (PackageFedora maintenance ''stable'' ''mesa'' None None) = Inr p
          \<and> version p = PStr [] \<and> last_updated p = [])
   \<and> urlopen maintenance (''https://beta.flathub.org/apps/details/'' @ ''mesa'') = Inr maintenance_page
   \<and> scan flathub_vp maintenance_page = None
   \<and> scan flathub_up maintenance_page = None
   \<and> (\<exists>p. fst (PackageFlatPackFlatHub maintenance ''mesa'') = Inr p
          \<and> version p = PStr [] \<and> last_updated p = [])
   \<and> urlopen (serving other_title_page (Inl JSONDecodeError))
        (''https://beta.flathub.org/apps/details/'' @ ''mesa'') = Inr other_title_page
   \<and> scan flathub_up other_title_page = None
   \<and> scan flathub_vp other_title_page = Some [''1.2.3'']
   \<and> list_all utf8_valid [''1.2.3'']
   \<and> (\<exists>p. fst (PackageFlatPackFlatHub (serving other_title_page (Inl JSONDecodeError)) ''mesa'')
          = Inr p \<and> last_updated p = [])\<close>
proof -
  have u: "\<And>url. urlopen maintenance url = Inr maintenance_page"
    and s: "\<And>pat. re_search maintenance pat maintenance_page = Inr None"
    by (simp_all add: maintenance_def serving_def)
  have u': "\<And>url. urlopen (serving other_title_page (Inl JSONDecodeError)) url = Inr other_title_page"
    by (simp add: serving_def)
  have v: "list_all utf8_valid [''1.2.3'']"
    by (simp add: byte_def)
  from no_match_keeps_fields_empty [of maintenance "''stable''" "''mesa''" maintenance_page
      None None]
    no_match_keeps_fields_empty [of "serving other_title_page (Inl JSONDecodeError)"
      "''stable''" "''mesa''" other_title_page None None]
  show ?thesis
    using u s u' v maintenance_page_no_version maintenance_page_no_date
      other_title_page_version other_title_page_no_date
    by simp
qed

section \<open>The table\<close>

lemma print_rows_stdout:
  "stdout (print_rows e pkgs w) =
     stdout w @ concat (map (\<lambda>p. hline @ [CHR 0x0A] @ package_row e p @ [CHR 0x0A]) pkgs)"
  by (induction pkgs arbitrary: w) (simp_all add: print_def)

lemma print_rows_warnings: "warnings (print_rows e pkgs w) = warnings w"
  by (induction pkgs arbitrary: w) (simp_all add: print_def)

lemma pprint_warnings: "warnings (pprint e pkgs w) = warnings w"
  by (simp add: pprint_def print_rows_warnings print_def)

lemma pprint_appends: "stdout (pprint e pkgs w) = stdout w @ printed e pkgs"
  by (simp add: printed_def pprint_def print_rows_stdout print_def silent_def)

lemma py_len_append: "py_len (s @ t) = py_len s + py_len t"
  by (simp add: py_len_def)

lemma py_len_spaces: "py_len (replicate k CHR '' '') = k"
  by (induction k) (simp_all add: py_len_def continuation_def byte_def)

lemma py_len_ljust: "py_len (ljust k s) = max k (py_len s)"
  by (simp add: ljust_def py_len_append py_len_spaces)

lemma header_row:
  "format_row ''distro'' ''repository'' ''version'' ''last updated''
     = ''distro         repository     version        last updated   ''"
  by code_simp

text \<open>
  Claim C6. For every list of instances \<open>_pprint\<close> writes one header row with the titles
  \<open>distro\<close>, \<open>repository\<close>, \<open>version\<close>, \<open>last updated\<close>, then for each instance, in
  order, a line of 60 dashes followed by one data row. A row is four columns, each the
  value followed by spaces up to 15 characters (a longer value is written in full);
  the first column of a data row is \<open>distro\<close>, a space and \<open>distro_release\<close>.
  Nothing is logged.
\<close>

theorem pprint_output:
  "stdout (pprint e pkgs w) =
     stdout w
       @ ljust 15 ''distro'' @ ljust 15 ''repository'' @ ljust 15 ''version''
       @ ljust 15 ''last updated'' @ [CHR 0x0A]
       @ concat (map (\<lambda>p.
           replicate 60 CHR ''-'' @ [CHR 0x0A]
             @ ljust 15 (distro p @ '' '' @ distro_release p) @ ljust 15 (repository p)
             @ ljust 15 (py_str e (version p)) @ ljust 15 (last_updated p) @ [CHR 0x0A])
           pkgs)
   \<and> ljust 15 ''distro'' @ ljust 15 ''repository'' @ ljust 15 ''version'' @ ljust 15 ''last updated''
       = ''distro         repository     version        last updated   ''
   \<and> (\<forall>s. ljust 15 s = s @ replicate (15 - py_len s) CHR '' '' \<and> py_len (ljust 15 s) = max 15 (py_len s))
   \<and> warnings (pprint e pkgs w) = warnings w"
proof (intro conjI allI)
  show "stdout (pprint e pkgs w) =
     stdout w
       @ ljust 15 ''distro'' @ ljust 15 ''repository'' @ ljust 15 ''version''
       @ ljust 15 ''last updated'' @ [CHR 0x0A]
       @ concat (map (\<lambda>p.
           replicate 60 CHR ''-'' @ [CHR 0x0A]
             @ ljust 15 (distro p @ '' '' @ distro_release p) @ ljust 15 (repository p)
             @ ljust 15 (py_str e (version p)) @ ljust 15 (last_updated p) @ [CHR 0x0A])
           pkgs)"
    by (simp add: pprint_def print_rows_stdout print_def format_row_def package_row_def hline_def)
  show "ljust 15 ''distro'' @ ljust 15 ''repository'' @ ljust 15 ''version'' @ ljust 15 ''last updated''
       = ''distro         repository     version        last updated   ''"
    using header_row by (simp add: format_row_def)
  show "ljust 15 s = s @ replicate (15 - py_len s) CHR '' ''" for s
    by (simp add: ljust_def)
  show "py_len (ljust 15 s) = max 15 (py_len s)" for s
    by (rule py_len_ljust)
  show "warnings (pprint e pkgs w) = warnings w"
    by (rule pprint_warnings)
qed

section \<open>Running the sections\<close>

lemma report_prefix: "prefix (stdout w) (stdout (snd (report e calls w)))"
  by (auto simp: report_def pprint_appends warn_def split: prod.splits sum.splits)

lemma labelled_prefix:
  "prefix (stdout w) (stdout (snd (block [\<lambda>w. (None, print label w), report e calls] w)))"
proof -
  have "prefix (stdout (print label w)) (stdout (snd (report e calls (print label w))))"
    by (rule report_prefix)
  moreover have "prefix (stdout w) (stdout (print label w))"
    by (simp add: print_def)
  ultimately have "prefix (stdout w) (stdout (snd (report e calls (print label w))))"
    by (rule prefix_order.trans [rotated])
  then show ?thesis
    by (auto split: prod.splits option.splits)
qed

lemma block_prefix:
  assumes "\<forall>st\<in>set sts. \<forall>w. prefix (stdout w) (stdout (snd (st w)))"
  shows "prefix (stdout w) (stdout (snd (block sts w)))"
  using assms
proof (induction sts arbitrary: w)
  case Nil
  then show ?case by simp
next
  case (Cons st sts)
  then have a: "prefix (stdout w) (stdout (snd (st w)))" by simp
  from Cons have b: "prefix (stdout (snd (st w))) (stdout (snd (block sts (snd (st w)))))" by simp
  show ?case
  proof (cases "st w")
    case (Pair r w')
    with a b show ?thesis
      by (cases r) (auto intro: prefix_order.trans)
  qed
qed

lemma fields_of_results:
  assumes "map fst calls = map Inr ps"
    and "list_all2 (\<lambda>c k. \<forall>p. fst c = Inr p \<longrightarrow> f p = k) calls keys"
  shows "map f ps = keys"
  using assms(2,1)
  by (induction arbitrary: ps rule: list_all2_induct) auto


lemma section_prefixes:
  "prefix (stdout w) (stdout (snd (firefox_section e sel w)))"
  "prefix (stdout w) (stdout (snd (thunderbird_section e sel w)))"
  "prefix (stdout w) (stdout (snd (libreoffice_section e sel w)))"
  "prefix (stdout w) (stdout (snd (inkscape_section e sel w)))"
  "prefix (stdout w) (stdout (snd (mesa_section e sel w)))"
  unfolding firefox_section_def thunderbird_section_def libreoffice_section_def
    inkscape_section_def mesa_section_def
  using labelled_prefix by (simp_all add: skip_def)

lemma sections_prefix:
  "prefix (stdout w)
     (stdout (snd (block [firefox_section e sel, thunderbird_section e sel,
        libreoffice_section e sel, inkscape_section e sel, mesa_section e sel] w)))"
  by (rule block_prefix) (simp add: section_prefixes)

lemma sections_skip:
  "block [firefox_section e [], thunderbird_section e [], libreoffice_section e [],
     inkscape_section e [], mesa_section e []] w = (None, w)"
  by (simp add: firefox_section_def thunderbird_section_def libreoffice_section_def
      inkscape_section_def mesa_section_def skip_def)

lemma collect_returns: "map fst calls = map Inr ps \<Longrightarrow> fst (collect calls) = Inr ps"
proof (induction calls arbitrary: ps rule: collect.induct)
  case 1
  then show ?case by simp
next
  case (2 x warned calls)
  then show ?case by auto
next
  case (3 p warned calls)
  then obtain ps' where ps: "ps = p # ps'" and rest: "map fst calls = map Inr ps'"
    by (cases ps) auto
  from "3.IH" [OF rest] ps show ?case
    by (auto split: prod.splits sum.splits)
qed

lemma report_returns:
  assumes "map fst calls = map Inr ps"
  shows "fst (report e calls w) = None"
    and "stdout (snd (report e calls w)) = stdout w @ printed e ps"
  using collect_returns [OF assms]
  by (auto simp: report_def pprint_appends warn_def split: prod.splits sum.splits)

lemma labelled_returns:
  assumes "map fst calls = map Inr ps"
  shows "fst (block [\<lambda>w. (None, print label w), report e calls] w) = None"
    and "stdout (snd (block [\<lambda>w. (None, print label w), report e calls] w))
        = stdout w @ label @ [CHR 0x0A] @ printed e ps"
  using report_returns [OF assms, of e "print label w"]
  by (auto simp: print_def split: prod.splits option.splits)

lemma block_step:
  assumes "fst (st w) = None"
  shows "block (st # sts) w = block sts (snd (st w))"
  using assms by (cases "st w") auto

lemma software_sections_written:
  assumes "map fst
       [PackageArchLinux e ''extra'' ''firefox'', PackageDebian e ''unstable'' ''firefox'',
        PackageDebian e ''testing'' ''firefox'', PackageDebian e ''stable'' ''firefox'',
        PackageFedora e ''stable'' ''firefox'' None None,
        PackageFlatPackFlatHub e ''org.mozilla.firefox''] = map Inr ps1"
    and "map fst
       [PackageArchLinux e ''extra'' ''thunderbird'', PackageDebian e ''unstable'' ''thunderbird'',
        PackageDebian e ''testing'' ''thunderbird'', PackageDebian e ''stable'' ''thunderbird'',
        PackageFedora e ''stable'' ''thunderbird'' None None,
        PackageFlatPackFlatHub e ''org.mozilla.Thunderbird''] = map Inr ps2"
    and "map fst
       [PackageArchLinux e ''extra'' ''libreoffice-fresh'',
        PackageArchLinux e ''extra'' ''libreoffice-still'',
        PackageDebian e ''unstable'' ''libreoffice'', PackageDebian e ''testing'' ''libreoffice'',
        PackageDebian e ''stable'' ''libreoffice'',
        PackageFedora e ''stable'' ''libreoffice'' None None,
        PackageFlatPackFlatHub e ''org.libreoffice.LibreOffice''] = map Inr ps3"
    and "map fst
       [PackageArchLinux e ''extra'' ''inkscape'', PackageDebian e ''unstable'' ''inkscape'',
        PackageDebian e ''testing'' ''inkscape'', PackageDebian e ''stable'' ''inkscape'',
        PackageFedora e ''stable'' ''inkscape'' None None,
        PackageFlatPackFlatHub e ''org.inkscape.Inkscape''] = map Inr ps4"
    and "map fst
       [PackageArchLinux e ''extra'' ''mesa'', PackageDebian e ''unstable'' ''mesa'',
        PackageDebian e ''testing'' ''mesa'', PackageDebian e ''stable'' ''mesa'',
        PackageFedora e ''stable'' ''mesa-libGL'' None (Some ''mesa'')] = map Inr ps5"
  shows "fst (block [firefox_section e SOFTWARE, thunderbird_section e SOFTWARE,
        libreoffice_section e SOFTWARE, inkscape_section e SOFTWARE, mesa_section e SOFTWARE] w)
      = None"
    and "stdout (snd (block [firefox_section e SOFTWARE, thunderbird_section e SOFTWARE,
        libreoffice_section e SOFTWARE, inkscape_section e SOFTWARE, mesa_section e SOFTWARE] w))
      = stdout w
          @ ''\<newline>Firefox:\<newline>'' @ printed e ps1
          @ ''\<newline>Thunderbird:\<newline>'' @ printed e ps2
          @ ''\<newline>LibreOffice:\<newline>'' @ printed e ps3
          @ ''\<newline>Inkscape:\<newline>'' @ printed e ps4
          @ ''\<newline>Mesa:\<newline>'' @ printed e ps5"
proof -
  let ?s1 = "firefox_section e SOFTWARE" and ?s2 = "thunderbird_section e SOFTWARE"
    and ?s3 = "libreoffice_section e SOFTWARE" and ?s4 = "inkscape_section e SOFTWARE"
    and ?s5 = "mesa_section e SOFTWARE"
  define w1 where "w1 = snd (?s1 w)"
  define w2 where "w2 = snd (?s2 w1)"
  define w3 where "w3 = snd (?s3 w2)"
  define w4 where "w4 = snd (?s4 w3)"
  define w5 where "w5 = snd (?s5 w4)"
  have f1: "fst (?s1 w) = None"
    and o1: "stdout w1 = stdout w @ ''\<newline>Firefox:'' @ [CHR 0x0A] @ printed e ps1"
    unfolding w1_def firefox_section_def
    using labelled_returns [OF assms(1), of "''\<newline>Firefox:''" e w]
    by (simp_all add: SOFTWARE_def)
  have f2: "fst (?s2 w1) = None"
    and o2: "stdout w2 = stdout w1 @ ''\<newline>Thunderbird:'' @ [CHR 0x0A] @ printed e ps2"
    unfolding w2_def thunderbird_section_def
    using labelled_returns [OF assms(2), of "''\<newline>Thunderbird:''" e w1]
    by (simp_all add: SOFTWARE_def)
  have f3: "fst (?s3 w2) = None"
    and o3: "stdout w3 = stdout w2 @ ''\<newline>LibreOffice:'' @ [CHR 0x0A] @ printed e ps3"
    unfolding w3_def libreoffice_section_def
    using labelled_returns [OF assms(3), of "''\<newline>LibreOffice:''" e w2]
    by (simp_all add: SOFTWARE_def)
  have f4: "fst (?s4 w3) = None"
    and o4: "stdout w4 = stdout w3 @ ''\<newline>Inkscape:'' @ [CHR 0x0A] @ printed e ps4"
    unfolding w4_def inkscape_section_def
    using labelled_returns [OF assms(4), of "''\<newline>Inkscape:''" e w3]
    by (simp_all add: SOFTWARE_def)
  have f5: "fst (?s5 w4) = None"
    and o5: "stdout w5 = stdout w4 @ ''\<newline>Mesa:'' @ [CHR 0x0A] @ printed e ps5"
    unfolding w5_def mesa_section_def
    using labelled_returns [OF assms(5), of "''\<newline>Mesa:''" e w4]
    by (simp_all add: SOFTWARE_def)
  have b: "block [?s1, ?s2, ?s3, ?s4, ?s5] w = (None, w5)"
  proof -
    have "block [?s1, ?s2, ?s3, ?s4, ?s5] w = block [?s2, ?s3, ?s4, ?s5] w1"
      unfolding w1_def using f1 by (rule block_step)
    also have "\<dots> = block [?s3, ?s4, ?s5] w2"
      unfolding w2_def using f2 by (rule block_step)
    also have "\<dots> = block [?s4, ?s5] w3"
      unfolding w3_def using f3 by (rule block_step)
    also have "\<dots> = block [?s5] w4"
      unfolding w4_def using f4 by (rule block_step)
    also have "\<dots> = block [] w5"
      unfolding w5_def using f5 by (rule block_step)
    finally show ?thesis by simp
  qed
  from b show "fst (block [?s1, ?s2, ?s3, ?s4, ?s5] w) = None"
    by simp
  from b o1 o2 o3 o4 o5 show "stdout (snd (block [?s1, ?s2, ?s3, ?s4, ?s5] w))
      = stdout w
          @ ''\<newline>Firefox:\<newline>'' @ printed e ps1
          @ ''\<newline>Thunderbird:\<newline>'' @ printed e ps2
          @ ''\<newline>LibreOffice:\<newline>'' @ printed e ps3
          @ ''\<newline>Inkscape:\<newline>'' @ printed e ps4
          @ ''\<newline>Mesa:\<newline>'' @ printed e ps5"
    by simp
qed

lemma main_with_all:
  assumes "all a" and "fst (search_section e a w) = None"
  shows "main e a w =
     block [firefox_section e SOFTWARE, thunderbird_section e SOFTWARE,
        libreoffice_section e SOFTWARE, inkscape_section e SOFTWARE, mesa_section e SOFTWARE]
       (snd (search_section e a w))"
  unfolding main_def selection_all [OF assms(1)] using assms(2) by (rule block_step)

lemma offline_instances:
  "fst (PackageArchLinux offline r n) = Inr (unresolved ''ArchLinux'' [] r n None)"
  "fst (PackageDebian offline r n) = Inr (unresolved ''Debian'' [] r n None)"
  "fst (PackageFedora offline r n dr sp)
     = Inr (unresolved ''Fedora'' (or_default ''37'' dr) r n (Some (or_default n sp)))"
  "fst (PackageFlatPackFlatHub offline n) = Inr (unresolved ''flatpak'' [] ''flathub'' n None)"
  by (simp_all add: PackageArchLinux_def PackageDebian_def PackageFedora_def
      PackageFlatPackFlatHub_def Package_init_def arch_update_def debian_update_def
      fedora_update_def flathub_update_def the_source_package_def url_content_def offline_def
      new_object_def or_default_def unresolved_def split: option.splits)

lemma dropping_raises:
  "PackageArchLinux dropping r n = (Inl (OtherException ''RemoteDisconnected''), [])"
  by (simp add: PackageArchLinux_def Package_init_def arch_update_def url_content_def dropping_def)

text \<open>
  Claim C7, as stated, fails: a constructor call that raises ends the program before
  anything is reported. \<open>_url_content\<close> turns only \<open>HTTPError\<close> and \<open>URLError\<close> into
  "no content", and \<open>main\<close> handles no exception. With the term \<open>a b\<close> the first URL
  holds a space, \<open>urlopen\<close> raises \<open>InvalidURL\<close>, and nothing is written.
\<close>

theorem search_raises_counterexample:
  "search search_a_b = Some [''a b'']
   \<and> main refusing_spaces search_a_b silent = (Some (OtherException ''InvalidURL''), silent)"
proof -
  have "PackageArchLinux refusing_spaces ''core'' ''a b'' = (Inl (OtherException ''InvalidURL''), [])"
    by (simp add: PackageArchLinux_def Package_init_def arch_update_def arch_url_def
        url_content_def refusing_spaces_def)
  then show ?thesis
    by (simp add: main_def search_section_def search_a_b_def report_def warn_def silent_def)
qed

text \<open>
  Claim C7, amended. With \<open>-s TERM\<close>, when each of the twelve constructor calls of the
  fixed list (six ArchLinux repositories, three Debian repositories, Fedora releases
  37 and 36 of \<open>stable\<close>, FlatHub, every one with \<open>TERM\<close> as \<open>name\<close>) returns: every
  instance has \<open>name = TERM\<close> and the distro, release and repository of its call, and
  the table of exactly these twelve instances, in this order, is the first thing
  written. When no software is selected besides, nothing else is written and the
  program ends without an exception.
\<close>

theorem search_reports_fixed_list:
  assumes "search a = Some (t # ts)"
    and "map fst
       [PackageArchLinux e ''core'' t, PackageArchLinux e ''extra'' t,
        PackageArchLinux e ''community'' t, PackageArchLinux e ''multilib'' t,
        PackageArchLinux e ''testing'' t, PackageArchLinux e ''community-testing'' t,
        PackageDebian e ''unstable'' t, PackageDebian e ''testing'' t,
        PackageDebian e ''stable'' t,
        PackageFedora e ''stable'' t None None, PackageFedora e ''stable'' t (Some ''36'') None,
        PackageFlatPackFlatHub e t] = map Inr ps"
  shows "map (\<lambda>p. (distro p, distro_release p, repository p, name p)) ps =
         [(''ArchLinux'', [], ''core'', t), (''ArchLinux'', [], ''extra'', t),
          (''ArchLinux'', [], ''community'', t), (''ArchLinux'', [], ''multilib'', t),
          (''ArchLinux'', [], ''testing'', t), (''ArchLinux'', [], ''community-testing'', t),
          (''Debian'', [], ''unstable'', t), (''Debian'', [], ''testing'', t),
          (''Debian'', [], ''stable'', t),
          (''Fedora'', ''37'', ''stable'', t), (''Fedora'', ''36'', ''stable'', t),
          (''flatpak'', [], ''flathub'', t)]
     \<and> prefix (stdout w @ printed e ps) (stdout (snd (main e a w)))
     \<and> (selection a = [] \<longrightarrow>
          fst (main e a w) = None \<and> stdout (snd (main e a w)) = stdout w @ printed e ps)"
proof -
  let ?calls = "[PackageArchLinux e ''core'' t, PackageArchLinux e ''extra'' t,
        PackageArchLinux e ''community'' t, PackageArchLinux e ''multilib'' t,
        PackageArchLinux e ''testing'' t, PackageArchLinux e ''community-testing'' t,
        PackageDebian e ''unstable'' t, PackageDebian e ''testing'' t,
        PackageDebian e ''stable'' t,
        PackageFedora e ''stable'' t None None, PackageFedora e ''stable'' t (Some ''36'') None,
        PackageFlatPackFlatHub e t]"
  let ?sections = "[firefox_section e (selection a), thunderbird_section e (selection a),
        libreoffice_section e (selection a), inkscape_section e (selection a),
        mesa_section e (selection a)]"
  from assms(1) have sec: "search_section e a = report e ?calls"
    by (simp add: search_section_def)
  from report_returns [OF assms(2), of e w] have
    r: "fst (report e ?calls w) = None"
    and out: "stdout (snd (report e ?calls w)) = stdout w @ printed e ps"
    by simp_all
  have m: "main e a w = block ?sections (snd (report e ?calls w))"
    unfolding main_def sec using r by (rule block_step)
  have keys: "map (\<lambda>p. (distro p, distro_release p, repository p, name p)) ps =
         [(''ArchLinux'', [], ''core'', t), (''ArchLinux'', [], ''extra'', t),
          (''ArchLinux'', [], ''community'', t), (''ArchLinux'', [], ''multilib'', t),
          (''ArchLinux'', [], ''testing'', t), (''ArchLinux'', [], ''community-testing'', t),
          (''Debian'', [], ''unstable'', t), (''Debian'', [], ''testing'', t),
          (''Debian'', [], ''stable'', t),
          (''Fedora'', ''37'', ''stable'', t), (''Fedora'', ''36'', ''stable'', t),
          (''flatpak'', [], ''flathub'', t)]"
    by (rule fields_of_results [OF assms(2)])
      (simp add: PackageArchLinux_fields PackageDebian_fields PackageFedora_fields
        PackageFlatPackFlatHub_fields or_default_def)
  have pre: "prefix (stdout w @ printed e ps) (stdout (snd (main e a w)))"
    unfolding m using sections_prefix [of "snd (report e ?calls w)" e "selection a"]
    by (simp add: out)
  have none: "selection a = [] \<longrightarrow>
      fst (main e a w) = None \<and> stdout (snd (main e a w)) = stdout w @ printed e ps"
  proof
    assume "selection a = []"
    with m sections_skip [of e "snd (report e ?calls w)"] out
    show "fst (main e a w) = None \<and> stdout (snd (main e a w)) = stdout w @ printed e ps"
      by simp
  qed
  from keys pre none show ?thesis
    by (intro conjI)
qed

theorem search_reports_fixed_list_witness:
  "search only_search = Some (''vim'' # [])
   \<and> map fst
       [PackageArchLinux offline ''core'' ''vim'', PackageArchLinux offline ''extra'' ''vim'',
        PackageArchLinux offline ''community'' ''vim'', PackageArchLinux offline ''multilib'' ''vim'',
        PackageArchLinux offline ''testing'' ''vim'',
        PackageArchLinux offline ''community-testing'' ''vim'',
        PackageDebian offline ''unstable'' ''vim'', PackageDebian offline ''testing'' ''vim'',
        PackageDebian offline ''stable'' ''vim'',
        PackageFedora offline ''stable'' ''vim'' None None,
        PackageFedora offline ''stable'' ''vim'' (Some ''36'') None,
        PackageFlatPackFlatHub offline ''vim'']
     = map Inr
       [unresolved ''ArchLinux'' [] ''core'' ''vim'' None,
        unresolved ''ArchLinux'' [] ''extra'' ''vim'' None,
        unresolved ''ArchLinux'' [] ''community'' ''vim'' None,
        unresolved ''ArchLinux'' [] ''multilib'' ''vim'' None,
        unresolved ''ArchLinux'' [] ''testing'' ''vim'' None,
        unresolved ''ArchLinux'' [] ''community-testing'' ''vim'' None,
        unresolved ''Debian'' [] ''unstable'' ''vim'' None,
        unresolved ''Debian'' [] ''testing'' ''vim'' None,
        unresolved ''Debian'' [] ''stable'' ''vim'' None,
        unresolved ''Fedora'' ''37'' ''stable'' ''vim'' (Some ''vim''),
        unresolved ''Fedora'' ''36'' ''stable'' ''vim'' (Some ''vim''),
        unresolved ''flatpak'' [] ''flathub'' ''vim'' None]
   \<and> selection only_search = []
   \<and> fst (main offline only_search silent) = None
   \<and> stdout (snd (main offline only_search silent)) =
       printed offline
         [unresolved ''ArchLinux'' [] ''core'' ''vim'' None,
          unresolved ''ArchLinux'' [] ''extra'' ''vim'' None,
          unresolved ''ArchLinux'' [] ''community'' ''vim'' None,
          unresolved ''ArchLinux'' [] ''multilib'' ''vim'' None,
          unresolved ''ArchLinux'' [] ''testing'' ''vim'' None,
          unresolved ''ArchLinux'' [] ''community-testing'' ''vim'' None,
          unresolved ''Debian'' [] ''unstable'' ''vim'' None,
          unresolved ''Debian'' [] ''testing'' ''vim'' None,
          unresolved ''Debian'' [] ''stable'' ''vim'' None,
          unresolved ''Fedora'' ''37'' ''stable'' ''vim'' (Some ''vim''),
          unresolved ''Fedora'' ''36'' ''stable'' ''vim'' (Some ''vim''),
          unresolved ''flatpak'' [] ''flathub'' ''vim'' None]"
proof -
  have a: "search only_search = Some (''vim'' # [])"
    by (simp add: only_search_def)
  have b: "selection only_search = []"
    by (simp add: only_search_def selection_def truthy_def)
  have c: "map fst
       [PackageArchLinux offline ''core'' ''vim'', PackageArchLinux offline ''extra'' ''vim'',
        PackageArchLinux offline ''community'' ''vim'', PackageArchLinux offline ''multilib'' ''vim'',
        PackageArchLinux offline ''testing'' ''vim'',
        PackageArchLinux offline ''community-testing'' ''vim'',
        PackageDebian offline ''unstable'' ''vim'', PackageDebian offline ''testing'' ''vim'',
        PackageDebian offline ''stable'' ''vim'',
        PackageFedora offline ''stable'' ''vim'' None None,
        PackageFedora offline ''stable'' ''vim'' (Some ''36'') None,
        PackageFlatPackFlatHub offline ''vim'']
     = map Inr
       [unresolved ''ArchLinux'' [] ''core'' ''vim'' None,
        unresolved ''ArchLinux'' [] ''extra'' ''vim'' None,
        unresolved ''ArchLinux'' [] ''community'' ''vim'' None,
        unresolved ''ArchLinux'' [] ''multilib'' ''vim'' None,
        unresolved ''ArchLinux'' [] ''testing'' ''vim'' None,
        unresolved ''ArchLinux'' [] ''community-testing'' ''vim'' None,
        unresolved ''Debian'' [] ''unstable'' ''vim'' None,
        unresolved ''Debian'' [] ''testing'' ''vim'' None,
        unresolved ''Debian'' [] ''stable'' ''vim'' None,
        unresolved ''Fedora'' ''37'' ''stable'' ''vim'' (Some ''vim''),
        unresolved ''Fedora'' ''36'' ''stable'' ''vim'' (Some ''vim''),
        unresolved ''flatpak'' [] ''flathub'' ''vim'' None]"
    by (simp add: offline_instances or_default_def)
  from search_reports_fixed_list [OF a c, of silent] b have
    "fst (main offline only_search silent) = None"
    and "stdout (snd (main offline only_search silent)) = stdout silent @
       printed offline
         [unresolved ''ArchLinux'' [] ''core'' ''vim'' None,
          unresolved ''ArchLinux'' [] ''extra'' ''vim'' None,
          unresolved ''ArchLinux'' [] ''community'' ''vim'' None,
          unresolved ''ArchLinux'' [] ''multilib'' ''vim'' None,
          unresolved ''ArchLinux'' [] ''testing'' ''vim'' None,
          unresolved ''ArchLinux'' [] ''community-testing'' ''vim'' None,
          unresolved ''Debian'' [] ''unstable'' ''vim'' None,
          unresolved ''Debian'' [] ''testing'' ''vim'' None,
          unresolved ''Debian'' [] ''stable'' ''vim'' None,
          unresolved ''Fedora'' ''37'' ''stable'' ''vim'' (Some ''vim''),
          unresolved ''Fedora'' ''36'' ''stable'' ''vim'' (Some ''vim''),
          unresolved ''flatpak'' [] ''flathub'' ''vim'' None]"
    by blast+
  with a b c show ?thesis
    by (simp add: silent_def)
qed

lemma offline_software_instances:
  "map fst
       [PackageArchLinux offline ''extra'' ''firefox'', PackageDebian offline ''unstable'' ''firefox'',
        PackageDebian offline ''testing'' ''firefox'', PackageDebian offline ''stable'' ''firefox'',
        PackageFedora offline ''stable'' ''firefox'' None None,
        PackageFlatPackFlatHub offline ''org.mozilla.firefox'']
     = map Inr
       [unresolved ''ArchLinux'' [] ''extra'' ''firefox'' None,
        unresolved ''Debian'' [] ''unstable'' ''firefox'' None,
        unresolved ''Debian'' [] ''testing'' ''firefox'' None,
        unresolved ''Debian'' [] ''stable'' ''firefox'' None,
        unresolved ''Fedora'' ''37'' ''stable'' ''firefox'' (Some ''firefox''),
        unresolved ''flatpak'' [] ''flathub'' ''org.mozilla.firefox'' None]"
  "map fst
       [PackageArchLinux offline ''extra'' ''thunderbird'', PackageDebian offline ''unstable'' ''thunderbird'',
        PackageDebian offline ''testing'' ''thunderbird'', PackageDebian offline ''stable'' ''thunderbird'',
        PackageFedora offline ''stable'' ''thunderbird'' None None,
        PackageFlatPackFlatHub offline ''org.mozilla.Thunderbird'']
     = map Inr
       [unresolved ''ArchLinux'' [] ''extra'' ''thunderbird'' None,
        unresolved ''Debian'' [] ''unstable'' ''thunderbird'' None,
        unresolved ''Debian'' [] ''testing'' ''thunderbird'' None,
        unresolved ''Debian'' [] ''stable'' ''thunderbird'' None,
        unresolved ''Fedora'' ''37'' ''stable'' ''thunderbird'' (Some ''thunderbird''),
        unresolved ''flatpak'' [] ''flathub'' ''org.mozilla.Thunderbird'' None]"
  "map fst
       [PackageArchLinux offline ''extra'' ''libreoffice-fresh'',
        PackageArchLinux offline ''extra'' ''libreoffice-still'',
        PackageDebian offline ''unstable'' ''libreoffice'', PackageDebian offline ''testing'' ''libreoffice'',
        PackageDebian offline ''stable'' ''libreoffice'',
        PackageFedora offline ''stable'' ''libreoffice'' None None,
        PackageFlatPackFlatHub offline ''org.libreoffice.LibreOffice'']
     = map Inr
       [unresolved ''ArchLinux'' [] ''extra'' ''libreoffice-fresh'' None,
        unresolved ''ArchLinux'' [] ''extra'' ''libreoffice-still'' None,
        unresolved ''Debian'' [] ''unstable'' ''libreoffice'' None,
        unresolved ''Debian'' [] ''testing'' ''libreoffice'' None,
        unresolved ''Debian'' [] ''stable'' ''libreoffice'' None,
        unresolved ''Fedora'' ''37'' ''stable'' ''libreoffice'' (Some ''libreoffice''),
        unresolved ''flatpak'' [] ''flathub'' ''org.libreoffice.LibreOffice'' None]"
  "map fst
       [PackageArchLinux offline ''extra'' ''inkscape'', PackageDebian offline ''unstable'' ''inkscape'',
        PackageDebian offline ''testing'' ''inkscape'', PackageDebian offline ''stable'' ''inkscape'',
        PackageFedora offline ''stable'' ''inkscape'' None None,
        PackageFlatPackFlatHub offline ''org.inkscape.Inkscape'']
     = map Inr
       [unresolved ''ArchLinux'' [] ''extra'' ''inkscape'' None,
        unresolved ''Debian'' [] ''unstable'' ''inkscape'' None,
        unresolved ''Debian'' [] ''testing'' ''inkscape'' None,
        unresolved ''Debian'' [] ''stable'' ''inkscape'' None,
        unresolved ''Fedora'' ''37'' ''stable'' ''inkscape'' (Some ''inkscape''),
        unresolved ''flatpak'' [] ''flathub'' ''org.inkscape.Inkscape'' None]"
  "map fst
       [PackageArchLinux offline ''extra'' ''mesa'', PackageDebian offline ''unstable'' ''mesa'',
        PackageDebian offline ''testing'' ''mesa'', PackageDebian offline ''stable'' ''mesa'',
        PackageFedora offline ''stable'' ''mesa-libGL'' None (Some ''mesa'')]
     = map Inr
       [unresolved ''ArchLinux'' [] ''extra'' ''mesa'' None,
        unresolved ''Debian'' [] ''unstable'' ''mesa'' None,
        unresolved ''Debian'' [] ''testing'' ''mesa'' None,
        unresolved ''Debian'' [] ''stable'' ''mesa'' None,
        unresolved ''Fedora'' ''37'' ''stable'' ''mesa-libGL'' (Some ''mesa'')]"
  by (simp_all add: offline_instances or_default_def)

text \<open>
  Claim C8, as stated, fails: a constructor call that raises ends the program inside
  the section. \<open>_url_content\<close> turns only \<open>HTTPError\<close> and \<open>URLError\<close> into
  "no content", and \<open>main\<close> handles no exception. When the server drops the
  connection, \<open>--all\<close> writes the line \<open>Firefox:\<close> and no table, and no further section.
  The label of \<open>libreoffice\<close> is spelled \<open>LibreOffice\<close>.
\<close>

theorem all_raises_counterexample:
  "all only_all
   \<and> main dropping only_all silent =
       (Some (OtherException ''RemoteDisconnected''),
        \<lparr>stdout = ''\<newline>Firefox:\<newline>'', warnings = []\<rparr>)
   \<and> take 14 (stdout (snd (libreoffice_section offline SOFTWARE silent))) = ''\<newline>LibreOffice:\<newline>''
   \<and> ''\<newline>LibreOffice:\<newline>'' \<noteq> ''\<newline>Libreoffice:\<newline>''"
proof -
  have "main dropping only_all silent =
       (Some (OtherException ''RemoteDisconnected''),
        \<lparr>stdout = ''\<newline>Firefox:\<newline>'', warnings = []\<rparr>)"
    by (simp add: main_def search_section_def only_all_def selection_def SOFTWARE_def
        firefox_section_def skip_def report_def dropping_raises warn_def print_def silent_def)
  moreover have "stdout (snd (libreoffice_section offline SOFTWARE silent))
      = stdout silent @ ''\<newline>LibreOffice:'' @ [CHR 0x0A] @ printed offline
       [unresolved ''ArchLinux'' [] ''extra'' ''libreoffice-fresh'' None,
        unresolved ''ArchLinux'' [] ''extra'' ''libreoffice-still'' None,
        unresolved ''Debian'' [] ''unstable'' ''libreoffice'' None,
        unresolved ''Debian'' [] ''testing'' ''libreoffice'' None,
        unresolved ''Debian'' [] ''stable'' ''libreoffice'' None,
        unresolved ''Fedora'' ''37'' ''stable'' ''libreoffice'' (Some ''libreoffice''),
        unresolved ''flatpak'' [] ''flathub'' ''org.libreoffice.LibreOffice'' None]"
    unfolding libreoffice_section_def
    using labelled_returns(2) [OF offline_software_instances(3), of "''\<newline>LibreOffice:''" offline silent]
    by (simp add: SOFTWARE_def)
  then have "take 14 (stdout (snd (libreoffice_section offline SOFTWARE silent)))
      = ''\<newline>LibreOffice:\<newline>''"
    by (simp add: silent_def)
  ultimately show ?thesis
    by (simp add: only_all_def)
qed

text \<open>
  Claim C8, amended. With \<open>--all\<close>, when the search section (if \<open>--search\<close> is given
  too) ends without an exception and every constructor call of the five hardcoded
  lists returns, the program ends without an exception and writes one section for
  each entry of the fixed list, in the order firefox, thunderbird, libreoffice,
  inkscape, mesa. A section is the label line \<open>"\nFirefox:"\<close> (resp. \<open>Thunderbird\<close>,
  \<open>LibreOffice\<close>, \<open>Inkscape\<close>, \<open>Mesa\<close>, as the program spells them) followed by the table
  of the instances the software's own list of constructor calls returned. Nothing
  precedes the first section unless \<open>--search\<close> is given.
\<close>

theorem all_reports_each_software:
  assumes "all a" and "fst (search_section e a w) = None"
    and "map fst
       [PackageArchLinux e ''extra'' ''firefox'', PackageDebian e ''unstable'' ''firefox'',
        PackageDebian e ''testing'' ''firefox'', PackageDebian e ''stable'' ''firefox'',
        PackageFedora e ''stable'' ''firefox'' None None,
        PackageFlatPackFlatHub e ''org.mozilla.firefox''] = map Inr ps1"
    and "map fst
       [PackageArchLinux e ''extra'' ''thunderbird'', PackageDebian e ''unstable'' ''thunderbird'',
        PackageDebian e ''testing'' ''thunderbird'', PackageDebian e ''stable'' ''thunderbird'',
        PackageFedora e ''stable'' ''thunderbird'' None None,
        PackageFlatPackFlatHub e ''org.mozilla.Thunderbird''] = map Inr ps2"
    and "map fst
       [PackageArchLinux e ''extra'' ''libreoffice-fresh'',
        PackageArchLinux e ''extra'' ''libreoffice-still'',
        PackageDebian e ''unstable'' ''libreoffice'', PackageDebian e ''testing'' ''libreoffice'',
        PackageDebian e ''stable'' ''libreoffice'',
        PackageFedora e ''stable'' ''libreoffice'' None None,
        PackageFlatPackFlatHub e ''org.libreoffice.LibreOffice''] = map Inr ps3"
    and "map fst
       [PackageArchLinux e ''extra'' ''inkscape'', PackageDebian e ''unstable'' ''inkscape'',
        PackageDebian e ''testing'' ''inkscape'', PackageDebian e ''stable'' ''inkscape'',
        PackageFedora e ''stable'' ''inkscape'' None None,
        PackageFlatPackFlatHub e ''org.inkscape.Inkscape''] = map Inr ps4"
    and "map fst
       [PackageArchLinux e ''extra'' ''mesa'', PackageDebian e ''unstable'' ''mesa'',
        PackageDebian e ''testing'' ''mesa'', PackageDebian e ''stable'' ''mesa'',
        PackageFedora e ''stable'' ''mesa-libGL'' None (Some ''mesa'')] = map Inr ps5"
  shows "fst (main e a w) = None
     \<and> stdout (snd (main e a w)) =
         stdout (snd (search_section e a w))
           @ ''\<newline>Firefox:\<newline>'' @ printed e ps1
           @ ''\<newline>Thunderbird:\<newline>'' @ printed e ps2
           @ ''\<newline>LibreOffice:\<newline>'' @ printed e ps3
           @ ''\<newline>Inkscape:\<newline>'' @ printed e ps4
           @ ''\<newline>Mesa:\<newline>'' @ printed e ps5
     \<and> (\<not> truthy (search a) \<longrightarrow> snd (search_section e a w) = w)"
  using software_sections_written [OF assms(3-7), of "snd (search_section e a w)"]
    main_with_all [OF assms(1,2)]
  by (simp add: search_section_skip skip_def)

theorem all_reports_each_software_witness:
  "all only_all
   \<and> fst (search_section offline only_all silent) = None
   \<and> map fst
       [PackageArchLinux offline ''extra'' ''firefox'', PackageDebian offline ''unstable'' ''firefox'',
        PackageDebian offline ''testing'' ''firefox'', PackageDebian offline ''stable'' ''firefox'',
        PackageFedora offline ''stable'' ''firefox'' None None,
        PackageFlatPackFlatHub offline ''org.mozilla.firefox'']
     = map Inr
       [unresolved ''ArchLinux'' [] ''extra'' ''firefox'' None,
        unresolved ''Debian'' [] ''unstable'' ''firefox'' None,
        unresolved ''Debian'' [] ''testing'' ''firefox'' None,
        unresolved ''Debian'' [] ''stable'' ''firefox'' None,
        unresolved ''Fedora'' ''37'' ''stable'' ''firefox'' (Some ''firefox''),
        unresolved ''flatpak'' [] ''flathub'' ''org.mozilla.firefox'' None]
   \<and> map fst
       [PackageArchLinux offline ''extra'' ''thunderbird'', PackageDebian offline ''unstable'' ''thunderbird'',
        PackageDebian offline ''testing'' ''thunderbird'', PackageDebian offline ''stable'' ''thunderbird'',
        PackageFedora offline ''stable'' ''thunderbird'' None None,
        PackageFlatPackFlatHub offline ''org.mozilla.Thunderbird'']
     = map Inr
       [unresolved ''ArchLinux'' [] ''extra'' ''thunderbird'' None,
        unresolved ''Debian'' [] ''unstable'' ''thunderbird'' None,
        unresolved ''Debian'' [] ''testing'' ''thunderbird'' None,
        unresolved ''Debian'' [] ''stable'' ''thunderbird'' None,
        unresolved ''Fedora'' ''37'' ''stable'' ''thunderbird'' (Some ''thunderbird''),
        unresolved ''flatpak'' [] ''flathub'' ''org.mozilla.Thunderbird'' None]
   \<and> map fst
       [PackageArchLinux offline ''extra'' ''libreoffice-fresh'',
        PackageArchLinux offline ''extra'' ''libreoffice-still'',
        PackageDebian offline ''unstable'' ''libreoffice'', PackageDebian offline ''testing'' ''libreoffice'',
        PackageDebian offline ''stable'' ''libreoffice'',
        PackageFedora offline ''stable'' ''libreoffice'' None None,
        PackageFlatPackFlatHub offline ''org.libreoffice.LibreOffice'']
     = map Inr
       [unresolved ''ArchLinux'' [] ''extra'' ''libreoffice-fresh'' None,
        unresolved ''ArchLinux'' [] ''extra'' ''libreoffice-still'' None,
        unresolved ''Debian'' [] ''unstable'' ''libreoffice'' None,
        unresolved ''Debian'' [] ''testing'' ''libreoffice'' None,
        unresolved ''Debian'' [] ''stable'' ''libreoffice'' None,
        unresolved ''Fedora'' ''37'' ''stable'' ''libreoffice'' (Some ''libreoffice''),
        unresolved ''flatpak'' [] ''flathub'' ''org.libreoffice.LibreOffice'' None]
   \<and> map fst
       [PackageArchLinux offline ''extra'' ''inkscape'', PackageDebian offline ''unstable'' ''inkscape'',
        PackageDebian offline ''testing'' ''inkscape'', PackageDebian offline ''stable'' ''inkscape'',
        PackageFedora offline ''stable'' ''inkscape'' None None,
        PackageFlatPackFlatHub offline ''org.inkscape.Inkscape'']
     = map Inr
       [unresolved ''ArchLinux'' [] ''extra'' ''inkscape'' None,
        unresolved ''Debian'' [] ''unstable'' ''inkscape'' None,
        unresolved ''Debian'' [] ''testing'' ''inkscape'' None,
        unresolved ''Debian'' [] ''stable'' ''inkscape'' None,
        unresolved ''Fedora'' ''37'' ''stable'' ''inkscape'' (Some ''inkscape''),
        unresolved ''flatpak'' [] ''flathub'' ''org.inkscape.Inkscape'' None]
   \<and> map fst
       [PackageArchLinux offline ''extra'' ''mesa'', PackageDebian offline ''unstable'' ''mesa'',
        PackageDebian offline ''testing'' ''mesa'', PackageDebian offline ''stable'' ''mesa'',
        PackageFedora offline ''stable'' ''mesa-libGL'' None (Some ''mesa'')]
     = map Inr
       [unresolved ''ArchLinux'' [] ''extra'' ''mesa'' None,
        unresolved ''Debian'' [] ''unstable'' ''mesa'' None,
        unresolved ''Debian'' [] ''testing'' ''mesa'' None,
        unresolved ''Debian'' [] ''stable'' ''mesa'' None,
        unresolved ''Fedora'' ''37'' ''stable'' ''mesa-libGL'' (Some ''mesa'')]
   \<and> \<not> truthy (search only_all)
   \<and> fst (main offline only_all silent) = None
   \<and> stdout (snd (main offline only_all silent)) =
       ''\<newline>Firefox:\<newline>'' @ printed offline [unresolved ''ArchLinux'' [] ''extra'' ''firefox'' None,
        unresolved ''Debian'' [] ''unstable'' ''firefox'' None,
        unresolved ''Debian'' [] ''testing'' ''firefox'' None,
        unresolved ''Debian'' [] ''stable'' ''firefox'' None,
        unresolved ''Fedora'' ''37'' ''stable'' ''firefox'' (Some ''firefox''),
        unresolved ''flatpak'' [] ''flathub'' ''org.mozilla.firefox'' None]
       @ ''\<newline>Thunderbird:\<newline>'' @ printed offline [unresolved ''ArchLinux'' [] ''extra'' ''thunderbird'' None,
        unresolved ''Debian'' [] ''unstable'' ''thunderbird'' None,
        unresolved ''Debian'' [] ''testing'' ''thunderbird'' None,
        unresolved ''Debian'' [] ''stable'' ''thunderbird'' None,
        unresolved ''Fedora'' ''37'' ''stable'' ''thunderbird'' (Some ''thunderbird''),
        unresolved ''flatpak'' [] ''flathub'' ''org.mozilla.Thunderbird'' None]
       @ ''\<newline>LibreOffice:\<newline>'' @ printed offline [unresolved ''ArchLinux'' [] ''extra'' ''libreoffice-fresh'' None,
        unresolved ''ArchLinux'' [] ''extra'' ''libreoffice-still'' None,
        unresolved ''Debian'' [] ''unstable'' ''libreoffice'' None,
        unresolved ''Debian'' [] ''testing'' ''libreoffice'' None,
        unresolved ''Debian'' [] ''stable'' ''libreoffice'' None,
        unresolved ''Fedora'' ''37'' ''stable'' ''libreoffice'' (Some ''libreoffice''),
        unresolved ''flatpak'' [] ''flathub'' ''org.libreoffice.LibreOffice'' None]
       @ ''\<newline>Inkscape:\<newline>'' @ printed offline [unresolved ''ArchLinux'' [] ''extra'' ''inkscape'' None,
        unresolved ''Debian'' [] ''unstable'' ''inkscape'' None,
        unresolved ''Debian'' [] ''testing'' ''inkscape'' None,
        unresolved ''Debian'' [] ''stable'' ''inkscape'' None,
        unresolved ''Fedora'' ''37'' ''stable'' ''inkscape'' (Some ''inkscape''),
        unresolved ''flatpak'' [] ''flathub'' ''org.inkscape.Inkscape'' None]
       @ ''\<newline>Mesa:\<newline>'' @ printed offline [unresolved ''ArchLinux'' [] ''extra'' ''mesa'' None,
        unresolved ''Debian'' [] ''unstable'' ''mesa'' None,
        unresolved ''Debian'' [] ''testing'' ''mesa'' None,
        unresolved ''Debian'' [] ''stable'' ''mesa'' None,
        unresolved ''Fedora'' ''37'' ''stable'' ''mesa-libGL'' (Some ''mesa'')]"
proof -
  have a: "all only_all" and s: "\<not> truthy (search only_all)"
    by (simp_all add: only_all_def truthy_def)
  have f: "fst (search_section offline only_all silent) = None"
    using s by (simp add: search_section_skip skip_def)
  from all_reports_each_software [OF a f offline_software_instances] s
  have "fst (main offline only_all silent) = None"
    and "stdout (snd (main offline only_all silent)) =
       stdout silent
         @ ''\<newline>Firefox:\<newline>'' @ printed offline [unresolved ''ArchLinux'' [] ''extra'' ''firefox'' None,
        unresolved ''Debian'' [] ''unstable'' ''firefox'' None,
        unresolved ''Debian'' [] ''testing'' ''firefox'' None,
        unresolved ''Debian'' [] ''stable'' ''firefox'' None,
        unresolved ''Fedora'' ''37'' ''stable'' ''firefox'' (Some ''firefox''),
        unresolved ''flatpak'' [] ''flathub'' ''org.mozilla.firefox'' None]
         @ ''\<newline>Thunderbird:\<newline>'' @ printed offline [unresolved ''ArchLinux'' [] ''extra'' ''thunderbird'' None,
        unresolved ''Debian'' [] ''unstable'' ''thunderbird'' None,
        unresolved ''Debian'' [] ''testing'' ''thunderbird'' None,
        unresolved ''Debian'' [] ''stable'' ''thunderbird'' None,
        unresolved ''Fedora'' ''37'' ''stable'' ''thunderbird'' (Some ''thunderbird''),
        unresolved ''flatpak'' [] ''flathub'' ''org.mozilla.Thunderbird'' None]
         @ ''\<newline>LibreOffice:\<newline>'' @ printed offline [unresolved ''ArchLinux'' [] ''extra'' ''libreoffice-fresh'' None,
        unresolved ''ArchLinux'' [] ''extra'' ''libreoffice-still'' None,
        unresolved ''Debian'' [] ''unstable'' ''libreoffice'' None,
        unresolved ''Debian'' [] ''testing'' ''libreoffice'' None,
        unresolved ''Debian'' [] ''stable'' ''libreoffice'' None,
        unresolved ''Fedora'' ''37'' ''stable'' ''libreoffice'' (Some ''libreoffice''),
        unresolved ''flatpak'' [] ''flathub'' ''org.libreoffice.LibreOffice'' None]
         @ ''\<newline>Inkscape:\<newline>'' @ printed offline [unresolved ''ArchLinux'' [] ''extra'' ''inkscape'' None,
        unresolved ''Debian'' [] ''unstable'' ''inkscape'' None,
        unresolved ''Debian'' [] ''testing'' ''inkscape'' None,
        unresolved ''Debian'' [] ''stable'' ''inkscape'' None,
        unresolved ''Fedora'' ''37'' ''stable'' ''inkscape'' (Some ''inkscape''),
        unresolved ''flatpak'' [] ''flathub'' ''org.inkscape.Inkscape'' None]
         @ ''\<newline>Mesa:\<newline>'' @ printed offline [unresolved ''ArchLinux'' [] ''extra'' ''mesa'' None,
        unresolved ''Debian'' [] ''unstable'' ''mesa'' None,
        unresolved ''Debian'' [] ''testing'' ''mesa'' None,
        unresolved ''Debian'' [] ''stable'' ''mesa'' None,
        unresolved ''Fedora'' ''37'' ''stable'' ''mesa-libGL'' (Some ''mesa'')]"
    by simp_all
  with a s f offline_software_instances show ?thesis
    by (simp add: silent_def)
qed

text \<open>
  Claim C10, as stated, fails: with \<open>-p mesa -a\<close>, when the server drops the connection
  the first constructor call raises, the program writes the line \<open>Firefox:\<close> and ends;
  what is reported is not the full fixed list.
\<close>

theorem all_with_packages_raises_counterexample:
  "all mesa_and_all \<and> packages mesa_and_all = Some [''mesa'']
   \<and> main dropping mesa_and_all silent =
       (Some (OtherException ''RemoteDisconnected''),
        \<lparr>stdout = ''\<newline>Firefox:\<newline>'', warnings = []\<rparr>)"
  by (simp add: main_def search_section_def mesa_and_all_def selection_def SOFTWARE_def
      truthy_def firefox_section_def skip_def report_def dropping_raises warn_def print_def
      silent_def)

text \<open>
  Claim C10, amended. With \<open>--all\<close> the selection produced by \<open>--all\<close> replaces the
  \<open>--packages\<close> selection entirely: whatever was given to \<open>--packages\<close>, the selection
  is the whole fixed list \<open>SOFTWARE\<close> and the run is the same, and when the search
  section ends without an exception and every constructor call of the five hardcoded
  lists returns, the program ends without an exception and the sections written are
  those of the full fixed list, in its order. With none of \<open>-p\<close>, \<open>-a\<close>, \<open>-s\<close> the
  program writes nothing and ends without an exception.
\<close>

theorem all_overrides_packages:
  "(all a \<longrightarrow>
      selection a = SOFTWARE \<and> selection (a\<lparr>packages := q\<rparr>) = SOFTWARE
      \<and> main e (a\<lparr>packages := q\<rparr>) w = main e a w
      \<and> (fst (search_section e a w) = None
          \<and> map fst
       [PackageArchLinux e ''extra'' ''firefox'', PackageDebian e ''unstable'' ''firefox'',
        PackageDebian e ''testing'' ''firefox'', PackageDebian e ''stable'' ''firefox'',
        PackageFedora e ''stable'' ''firefox'' None None,
        PackageFlatPackFlatHub e ''org.mozilla.firefox''] = map Inr ps1
          \<and> map fst
       [PackageArchLinux e ''extra'' ''thunderbird'', PackageDebian e ''unstable'' ''thunderbird'',
        PackageDebian e ''testing'' ''thunderbird'', PackageDebian e ''stable'' ''thunderbird'',
        PackageFedora e ''stable'' ''thunderbird'' None None,
        PackageFlatPackFlatHub e ''org.mozilla.Thunderbird''] = map Inr ps2
          \<and> map fst
       [PackageArchLinux e ''extra'' ''libreoffice-fresh'',
        PackageArchLinux e ''extra'' ''libreoffice-still'',
        PackageDebian e ''unstable'' ''libreoffice'', PackageDebian e ''testing'' ''libreoffice'',
        PackageDebian e ''stable'' ''libreoffice'',
        PackageFedora e ''stable'' ''libreoffice'' None None,
        PackageFlatPackFlatHub e ''org.libreoffice.LibreOffice''] = map Inr ps3
          \<and> map fst
       [PackageArchLinux e ''extra'' ''inkscape'', PackageDebian e ''unstable'' ''inkscape'',
        PackageDebian e ''testing'' ''inkscape'', PackageDebian e ''stable'' ''inkscape'',
        PackageFedora e ''stable'' ''inkscape'' None None,
        PackageFlatPackFlatHub e ''org.inkscape.Inkscape''] = map Inr ps4
          \<and> map fst
       [PackageArchLinux e ''extra'' ''mesa'', PackageDebian e ''unstable'' ''mesa'',
        PackageDebian e ''testing'' ''mesa'', PackageDebian e ''stable'' ''mesa'',
        PackageFedora e ''stable'' ''mesa-libGL'' None (Some ''mesa'')] = map Inr ps5 \<longrightarrow>
          fst (main e (a\<lparr>packages := q\<rparr>) w) = None
          \<and> stdout (snd (main e (a\<lparr>packages := q\<rparr>) w)) =
              stdout (snd (search_section e a w))
                @ ''\<newline>Firefox:\<newline>'' @ printed e ps1
                @ ''\<newline>Thunderbird:\<newline>'' @ printed e ps2
                @ ''\<newline>LibreOffice:\<newline>'' @ printed e ps3
                @ ''\<newline>Inkscape:\<newline>'' @ printed e ps4
                @ ''\<newline>Mesa:\<newline>'' @ printed e ps5))
   \<and> (\<not> truthy (packages a) \<and> \<not> all a \<and> \<not> truthy (search a) \<longrightarrow> main e a w = (None, w))"
proof (intro conjI impI)
  assume "all a"
  then show "selection a = SOFTWARE" by (rule selection_all)
  from \<open>all a\<close> show sq: "selection (a\<lparr>packages := q\<rparr>) = SOFTWARE"
    by (simp add: selection_def)
  have "search_section e (a\<lparr>packages := q\<rparr>) = search_section e a"
    by (simp add: search_section_def)
  with sq selection_all [OF \<open>all a\<close>] show "main e (a\<lparr>packages := q\<rparr>) w = main e a w"
    by (simp add: main_def)
next
  assume "all a" and h: "fst (search_section e a w) = None
          \<and> map fst
       [PackageArchLinux e ''extra'' ''firefox'', PackageDebian e ''unstable'' ''firefox'',
        PackageDebian e ''testing'' ''firefox'', PackageDebian e ''stable'' ''firefox'',
        PackageFedora e ''stable'' ''firefox'' None None,
        PackageFlatPackFlatHub e ''org.mozilla.firefox''] = map Inr ps1
          \<and> map fst
       [PackageArchLinux e ''extra'' ''thunderbird'', PackageDebian e ''unstable'' ''thunderbird'',
        PackageDebian e ''testing'' ''thunderbird'', PackageDebian e ''stable'' ''thunderbird'',
        PackageFedora e ''stable'' ''thunderbird'' None None,
        PackageFlatPackFlatHub e ''org.mozilla.Thunderbird''] = map Inr ps2
          \<and> map fst
       [PackageArchLinux e ''extra'' ''libreoffice-fresh'',
        PackageArchLinux e ''extra'' ''libreoffice-still'',
        PackageDebian e ''unstable'' ''libreoffice'', PackageDebian e ''testing'' ''libreoffice'',
        PackageDebian e ''stable'' ''libreoffice'',
        PackageFedora e ''stable'' ''libreoffice'' None None,
        PackageFlatPackFlatHub e ''org.libreoffice.LibreOffice''] = map Inr ps3
          \<and> map fst
       [PackageArchLinux e ''extra'' ''inkscape'', PackageDebian e ''unstable'' ''inkscape'',
        PackageDebian e ''testing'' ''inkscape'', PackageDebian e ''stable'' ''inkscape'',
        PackageFedora e ''stable'' ''inkscape'' None None,
        PackageFlatPackFlatHub e ''org.inkscape.Inkscape''] = map Inr ps4
          \<and> map fst
       [PackageArchLinux e ''extra'' ''mesa'', PackageDebian e ''unstable'' ''mesa'',
        PackageDebian e ''testing'' ''mesa'', PackageDebian e ''stable'' ''mesa'',
        PackageFedora e ''stable'' ''mesa-libGL'' None (Some ''mesa'')] = map Inr ps5"
  from \<open>all a\<close> have sq: "selection (a\<lparr>packages := q\<rparr>) = SOFTWARE"
    by (simp add: selection_def)
  have ss: "search_section e (a\<lparr>packages := q\<rparr>) = search_section e a"
    by (simp add: search_section_def)
  from h have m: "main e (a\<lparr>packages := q\<rparr>) w =
     block [firefox_section e SOFTWARE, thunderbird_section e SOFTWARE,
        libreoffice_section e SOFTWARE, inkscape_section e SOFTWARE, mesa_section e SOFTWARE]
       (snd (search_section e a w))"
    unfolding main_def sq ss by (intro block_step) simp
  from h software_sections_written [of e ps1 ps2 ps3 ps4 ps5 "snd (search_section e a w)"]
  show "fst (main e (a\<lparr>packages := q\<rparr>) w) = None"
    unfolding m by blast
  from h software_sections_written [of e ps1 ps2 ps3 ps4 ps5 "snd (search_section e a w)"]
  show "stdout (snd (main e (a\<lparr>packages := q\<rparr>) w)) =
              stdout (snd (search_section e a w))
                @ ''\<newline>Firefox:\<newline>'' @ printed e ps1
                @ ''\<newline>Thunderbird:\<newline>'' @ printed e ps2
                @ ''\<newline>LibreOffice:\<newline>'' @ printed e ps3
                @ ''\<newline>Inkscape:\<newline>'' @ printed e ps4
                @ ''\<newline>Mesa:\<newline>'' @ printed e ps5"
    unfolding m by blast
next
  assume h: "\<not> truthy (packages a) \<and> \<not> all a \<and> \<not> truthy (search a)"
  then have "selection a = []" and "search_section e a = skip"
    by (simp_all add: selection_none search_section_skip)
  then show "main e a w = (None, w)"
    by (simp add: main_def firefox_section_def thunderbird_section_def libreoffice_section_def
        inkscape_section_def mesa_section_def skip_def)
qed

theorem all_overrides_packages_witness:
  "all mesa_and_all
   \<and> selection mesa_and_all = SOFTWARE
   \<and> selection (mesa_and_all\<lparr>packages := Some [''firefox'']\<rparr>) = SOFTWARE
   \<and> main offline (mesa_and_all\<lparr>packages := Some [''firefox'']\<rparr>) silent
       = main offline mesa_and_all silent
   \<and> fst (search_section offline mesa_and_all silent) = None
   \<and> map fst
       [PackageArchLinux offline ''extra'' ''firefox'', PackageDebian offline ''unstable'' ''firefox'',
        PackageDebian offline ''testing'' ''firefox'', PackageDebian offline ''stable'' ''firefox'',
        PackageFedora offline ''stable'' ''firefox'' None None,
        PackageFlatPackFlatHub offline ''org.mozilla.firefox'']
     = map Inr
       [unresolved ''ArchLinux'' [] ''extra'' ''firefox'' None,
        unresolved ''Debian'' [] ''unstable'' ''firefox'' None,
        unresolved ''Debian'' [] ''testing'' ''firefox'' None,
        unresolved ''Debian'' [] ''stable'' ''firefox'' None,
        unresolved ''Fedora'' ''37'' ''stable'' ''firefox'' (Some ''firefox''),
        unresolved ''flatpak'' [] ''flathub'' ''org.mozilla.firefox'' None]
   \<and> map fst
       [PackageArchLinux offline ''extra'' ''thunderbird'', PackageDebian offline ''unstable'' ''thunderbird'',
        PackageDebian offline ''testing'' ''thunderbird'', PackageDebian offline ''stable'' ''thunderbird'',
        PackageFedora offline ''stable'' ''thunderbird'' None None,
        PackageFlatPackFlatHub offline ''org.mozilla.Thunderbird'']
     = map Inr
       [unresolved ''ArchLinux'' [] ''extra'' ''thunderbird'' None,
        unresolved ''Debian'' [] ''unstable'' ''thunderbird'' None,
        unresolved ''Debian'' [] ''testing'' ''thunderbird'' None,
        unresolved ''Debian'' [] ''stable'' ''thunderbird'' None,
        unresolved ''Fedora'' ''37'' ''stable'' ''thunderbird'' (Some ''thunderbird''),
        unresolved ''flatpak'' [] ''flathub'' ''org.mozilla.Thunderbird'' None]
   \<and> map fst
       [PackageArchLinux offline ''extra'' ''libreoffice-fresh'',
        PackageArchLinux offline ''extra'' ''libreoffice-still'',
        PackageDebian offline ''unstable'' ''libreoffice'', PackageDebian offline ''testing'' ''libreoffice'',
        PackageDebian offline ''stable'' ''libreoffice'',
        PackageFedora offline ''stable'' ''libreoffice'' None None,
        PackageFlatPackFlatHub offline ''org.libreoffice.LibreOffice'']
     = map Inr
       [unresolved ''ArchLinux'' [] ''extra'' ''libreoffice-fresh'' None,
        unresolved ''ArchLinux'' [] ''extra'' ''libreoffice-still'' None,
        unresolved ''Debian'' [] ''unstable'' ''libreoffice'' None,
        unresolved ''Debian'' [] ''testing'' ''libreoffice'' None,
        unresolved ''Debian'' [] ''stable'' ''libreoffice'' None,
        unresolved ''Fedora'' ''37'' ''stable'' ''libreoffice'' (Some ''libreoffice''),
        unresolved ''flatpak'' [] ''flathub'' ''org.libreoffice.LibreOffice'' None]
   \<and> map fst
       [PackageArchLinux offline ''extra'' ''inkscape'', PackageDebian offline ''unstable'' ''inkscape'',
        PackageDebian offline ''testing'' ''inkscape'', PackageDebian offline ''stable'' ''inkscape'',
        PackageFedora offline ''stable'' ''inkscape'' None None,
        PackageFlatPackFlatHub offline ''org.inkscape.Inkscape'']
     = map Inr
       [unresolved ''ArchLinux'' [] ''extra'' ''inkscape'' None,
        unresolved ''Debian'' [] ''unstable'' ''inkscape'' None,
        unresolved ''Debian'' [] ''testing'' ''inkscape'' None,
        unresolved ''Debian'' [] ''stable'' ''inkscape'' None,
        unresolved ''Fedora'' ''37'' ''stable'' ''inkscape'' (Some ''inkscape''),
        unresolved ''flatpak'' [] ''flathub'' ''org.inkscape.Inkscape'' None]
   \<and> map fst
       [PackageArchLinux offline ''extra'' ''mesa'', PackageDebian offline ''unstable'' ''mesa'',
        PackageDebian offline ''testing'' ''mesa'', PackageDebian offline ''stable'' ''mesa'',
        PackageFedora offline ''stable'' ''mesa-libGL'' None (Some ''mesa'')]
     = map Inr
       [unresolved ''ArchLinux'' [] ''extra'' ''mesa'' None,
        unresolved ''Debian'' [] ''unstable'' ''mesa'' None,
        unresolved ''Debian'' [] ''testing'' ''mesa'' None,
        unresolved ''Debian'' [] ''stable'' ''mesa'' None,
        unresolved ''Fedora'' ''37'' ''stable'' ''mesa-libGL'' (Some ''mesa'')]
   \<and> fst (main offline (mesa_and_all\<lparr>packages := Some [''firefox'']\<rparr>) silent) = None
   \<and> stdout (snd (main offline (mesa_and_all\<lparr>packages := Some [''firefox'']\<rparr>) silent)) =
       ''\<newline>Firefox:\<newline>'' @ printed offline [unresolved ''ArchLinux'' [] ''extra'' ''firefox'' None,
        unresolved ''Debian'' [] ''unstable'' ''firefox'' None,
        unresolved ''Debian'' [] ''testing'' ''firefox'' None,
        unresolved ''Debian'' [] ''stable'' ''firefox'' None,
        unresolved ''Fedora'' ''37'' ''stable'' ''firefox'' (Some ''firefox''),
        unresolved ''flatpak'' [] ''flathub'' ''org.mozilla.firefox'' None]
       @ ''\<newline>Thunderbird:\<newline>'' @ printed offline [unresolved ''ArchLinux'' [] ''extra'' ''thunderbird'' None,
        unresolved ''Debian'' [] ''unstable'' ''thunderbird'' None,
        unresolved ''Debian'' [] ''testing'' ''thunderbird'' None,
        unresolved ''Debian'' [] ''stable'' ''thunderbird'' None,
        unresolved ''Fedora'' ''37'' ''stable'' ''thunderbird'' (Some ''thunderbird''),
        unresolved ''flatpak'' [] ''flathub'' ''org.mozilla.Thunderbird'' None]
       @ ''\<newline>LibreOffice:\<newline>'' @ printed offline [unresolved ''ArchLinux'' [] ''extra'' ''libreoffice-fresh'' None,
        unresolved ''ArchLinux'' [] ''extra'' ''libreoffice-still'' None,
        unresolved ''Debian'' [] ''unstable'' ''libreoffice'' None,
        unresolved ''Debian'' [] ''testing'' ''libreoffice'' None,
        unresolved ''Debian'' [] ''stable'' ''libreoffice'' None,
        unresolved ''Fedora'' ''37'' ''stable'' ''libreoffice'' (Some ''libreoffice''),
        unresolved ''flatpak'' [] ''flathub'' ''org.libreoffice.LibreOffice'' None]
       @ ''\<newline>Inkscape:\<newline>'' @ printed offline [unresolved ''ArchLinux'' [] ''extra'' ''inkscape'' None,
        unresolved ''Debian'' [] ''unstable'' ''inkscape'' None,
        unresolved ''Debian'' [] ''testing'' ''inkscape'' None,
        unresolved ''Debian'' [] ''stable'' ''inkscape'' None,
        unresolved ''Fedora'' ''37'' ''stable'' ''inkscape'' (Some ''inkscape''),
        unresolved ''flatpak'' [] ''flathub'' ''org.inkscape.Inkscape'' None]
       @ ''\<newline>Mesa:\<newline>'' @ printed offline [unresolved ''ArchLinux'' [] ''extra'' ''mesa'' None,
        unresolved ''Debian'' [] ''unstable'' ''mesa'' None,
        unresolved ''Debian'' [] ''testing'' ''mesa'' None,
        unresolved ''Debian'' [] ''stable'' ''mesa'' None,
        unresolved ''Fedora'' ''37'' ''stable'' ''mesa-libGL'' (Some ''mesa'')]
   \<and> \<not> truthy (packages \<lparr>packages = None, all = False, search = None\<rparr>)
   \<and> \<not> all \<lparr>packages = None, all = False, search = None\<rparr>
   \<and> \<not> truthy (search \<lparr>packages = None, all = False, search = None\<rparr>)
   \<and> main offline \<lparr>packages = None, all = False, search = None\<rparr> silent = (None, silent)"
proof -
  have a: "all mesa_and_all" and s: "\<not> truthy (search mesa_and_all)"
    by (simp_all add: mesa_and_all_def truthy_def)
  have f: "fst (search_section offline mesa_and_all silent) = None"
    using s by (simp add: search_section_skip skip_def)
  have w: "snd (search_section offline mesa_and_all silent) = silent"
    using s by (simp add: search_section_skip skip_def)
  have n: "\<not> truthy (packages \<lparr>packages = None, all = False, search = None\<rparr>)"
    "\<not> all \<lparr>packages = None, all = False, search = None\<rparr>"
    "\<not> truthy (search \<lparr>packages = None, all = False, search = None\<rparr>)"
    by (simp_all add: truthy_def)
  note T = all_overrides_packages [of mesa_and_all "Some [''firefox'']" offline silent
      "[unresolved ''ArchLinux'' [] ''extra'' ''firefox'' None,
        unresolved ''Debian'' [] ''unstable'' ''firefox'' None,
        unresolved ''Debian'' [] ''testing'' ''firefox'' None,
        unresolved ''Debian'' [] ''stable'' ''firefox'' None,
        unresolved ''Fedora'' ''37'' ''stable'' ''firefox'' (Some ''firefox''),
        unresolved ''flatpak'' [] ''flathub'' ''org.mozilla.firefox'' None]"
      "[unresolved ''ArchLinux'' [] ''extra'' ''thunderbird'' None,
        unresolved ''Debian'' [] ''unstable'' ''thunderbird'' None,
        unresolved ''Debian'' [] ''testing'' ''thunderbird'' None,
        unresolved ''Debian'' [] ''stable'' ''thunderbird'' None,
        unresolved ''Fedora'' ''37'' ''stable'' ''thunderbird'' (Some ''thunderbird''),
        unresolved ''flatpak'' [] ''flathub'' ''org.mozilla.Thunderbird'' None]"
      "[unresolved ''ArchLinux'' [] ''extra'' ''libreoffice-fresh'' None,
        unresolved ''ArchLinux'' [] ''extra'' ''libreoffice-still'' None,
        unresolved ''Debian'' [] ''unstable'' ''libreoffice'' None,
        unresolved ''Debian'' [] ''testing'' ''libreoffice'' None,
        unresolved ''Debian'' [] ''stable'' ''libreoffice'' None,
        unresolved ''Fedora'' ''37'' ''stable'' ''libreoffice'' (Some ''libreoffice''),
        unresolved ''flatpak'' [] ''flathub'' ''org.libreoffice.LibreOffice'' None]"
      "[unresolved ''ArchLinux'' [] ''extra'' ''inkscape'' None,
        unresolved ''Debian'' [] ''unstable'' ''inkscape'' None,
        unresolved ''Debian'' [] ''testing'' ''inkscape'' None,
        unresolved ''Debian'' [] ''stable'' ''inkscape'' None,
        unresolved ''Fedora'' ''37'' ''stable'' ''inkscape'' (Some ''inkscape''),
        unresolved ''flatpak'' [] ''flathub'' ''org.inkscape.Inkscape'' None]"
      "[unresolved ''ArchLinux'' [] ''extra'' ''mesa'' None,
        unresolved ''Debian'' [] ''unstable'' ''mesa'' None,
        unresolved ''Debian'' [] ''testing'' ''mesa'' None,
        unresolved ''Debian'' [] ''stable'' ''mesa'' None,
        unresolved ''Fedora'' ''37'' ''stable'' ''mesa-libGL'' (Some ''mesa'')]"]
  note X = T [THEN conjunct1, THEN mp, OF a]
  note i = offline_software_instances
  note H = conjI [OF f conjI [OF i(1) conjI [OF i(2) conjI [OF i(3) conjI [OF i(4) i(5)]]]]]
  note C = X [THEN conjunct2, THEN conjunct2, THEN conjunct2, THEN mp, OF H]
  have c1: "selection mesa_and_all = SOFTWARE"
    by (rule X [THEN conjunct1])
  have c2: "selection (mesa_and_all\<lparr>packages := Some [''firefox'']\<rparr>) = SOFTWARE"
    by (rule X [THEN conjunct2, THEN conjunct1])
  have c3: "main offline (mesa_and_all\<lparr>packages := Some [''firefox'']\<rparr>) silent
       = main offline mesa_and_all silent"
    by (rule X [THEN conjunct2, THEN conjunct2, THEN conjunct1])
  have c4: "fst (main offline (mesa_and_all\<lparr>packages := Some [''firefox'']\<rparr>) silent) = None"
    by (rule C [THEN conjunct1])
  have "stdout (snd (search_section offline mesa_and_all silent)) = []"
    unfolding w by (simp add: silent_def)
  with C [THEN conjunct2]
  have c5: "stdout (snd (main offline (mesa_and_all\<lparr>packages := Some [''firefox'']\<rparr>) silent)) =
       ''\<newline>Firefox:\<newline>'' @ printed offline [unresolved ''ArchLinux'' [] ''extra'' ''firefox'' None,
        unresolved ''Debian'' [] ''unstable'' ''firefox'' None,
        unresolved ''Debian'' [] ''testing'' ''firefox'' None,
        unresolved ''Debian'' [] ''stable'' ''firefox'' None,
        unresolved ''Fedora'' ''37'' ''stable'' ''firefox'' (Some ''firefox''),
        unresolved ''flatpak'' [] ''flathub'' ''org.mozilla.firefox'' None]
         @ ''\<newline>Thunderbird:\<newline>'' @ printed offline [unresolved ''ArchLinux'' [] ''extra'' ''thunderbird'' None,
        unresolved ''Debian'' [] ''unstable'' ''thunderbird'' None,
        unresolved ''Debian'' [] ''testing'' ''thunderbird'' None,
        unresolved ''Debian'' [] ''stable'' ''thunderbird'' None,
        unresolved ''Fedora'' ''37'' ''stable'' ''thunderbird'' (Some ''thunderbird''),
        unresolved ''flatpak'' [] ''flathub'' ''org.mozilla.Thunderbird'' None]
         @ ''\<newline>LibreOffice:\<newline>'' @ printed offline [unresolved ''ArchLinux'' [] ''extra'' ''libreoffice-fresh'' None,
        unresolved ''ArchLinux'' [] ''extra'' ''libreoffice-still'' None,
        unresolved ''Debian'' [] ''unstable'' ''libreoffice'' None,
        unresolved ''Debian'' [] ''testing'' ''libreoffice'' None,
        unresolved ''Debian'' [] ''stable'' ''libreoffice'' None,
        unresolved ''Fedora'' ''37'' ''stable'' ''libreoffice'' (Some ''libreoffice''),
        unresolved ''flatpak'' [] ''flathub'' ''org.libreoffice.LibreOffice'' None]
         @ ''\<newline>Inkscape:\<newline>'' @ printed offline [unresolved ''ArchLinux'' [] ''extra'' ''inkscape'' None,
        unresolved ''Debian'' [] ''unstable'' ''inkscape'' None,
        unresolved ''Debian'' [] ''testing'' ''inkscape'' None,
        unresolved ''Debian'' [] ''stable'' ''inkscape'' None,
        unresolved ''Fedora'' ''37'' ''stable'' ''inkscape'' (Some ''inkscape''),
        unresolved ''flatpak'' [] ''flathub'' ''org.inkscape.Inkscape'' None]
         @ ''\<newline>Mesa:\<newline>'' @ printed offline [unresolved ''ArchLinux'' [] ''extra'' ''mesa'' None,
        unresolved ''Debian'' [] ''unstable'' ''mesa'' None,
        unresolved ''Debian'' [] ''testing'' ''mesa'' None,
        unresolved ''Debian'' [] ''stable'' ''mesa'' None,
        unresolved ''Fedora'' ''37'' ''stable'' ''mesa-libGL'' (Some ''mesa'')]"
    by (simp only: append_Nil)
  from all_overrides_packages [of "\<lparr>packages = None, all = False, search = None\<rparr>" None
      offline silent] n
  have two: "main offline \<lparr>packages = None, all = False, search = None\<rparr> silent = (None, silent)"
    by simp
  from a c1 c2 c3 f i c4 c5 n two show ?thesis
    by (intro conjI)
qed

section \<open>FlatHub: a response with a match\<close>

lemma scan_skip:
  "\<not> starts_in lit pre rest \<Longrightarrow> scan (Lit lit # p) (pre @ rest) = scan (Lit lit # p) rest"
  by (induction pre) simp_all

lemma scan_hit: "matches p s = Some gs \<Longrightarrow> scan p s = Some gs"
  by (cases s) simp_all

lemma lazy_up_to:
  assumes "\<forall>c\<in>set V. in_class cls c"
    and "\<not> starts_in B V (B @ post)"
    and "matches (Lit B # p) (B @ post) = Some gs"
  shows "lazy g cls (Lit B # p) acc (V @ B @ post) = Some (capture g (rev V @ acc) gs)"
  using assms(1,2)
proof (induction V arbitrary: acc)
  case Nil
  with assms(3) show ?case by simp
next
  case (Cons c V)
  from Cons.prems have "\<not> prefix B (c # V @ B @ post)" and "in_class cls c"
    by simp_all
  moreover from Cons have "lazy g cls (Lit B # p) (c # acc) (V @ B @ post)
      = Some (capture g (rev V @ c # acc) gs)"
    by simp
  ultimately show ?case by simp
qed

lemma matches_Lit_only: "matches [Lit B] s = Some gs \<Longrightarrow> gs = []"
  by (auto split: if_splits)

lemma lazy_plain:
  assumes "\<forall>c\<in>set T. in_class cls c"
  shows "lazy False cls [Lit B] acc (T @ B @ post) = Some []"
  using assms
proof (induction T arbitrary: acc)
  case Nil
  then show ?case by (simp add: capture_def)
next
  case (Cons c T)
  show ?case
  proof (cases "matches [Lit B] (c # T @ B @ post)")
    case None
    with Cons show ?thesis by simp
  next
    case (Some gs)
    with matches_Lit_only [OF Some] show ?thesis
      by (simp add: capture_def)
  qed
qed

lemma greedy_all:
  assumes "\<forall>c\<in>set M. in_class cls c"
    and "lo \<le> length M" and "length M \<le> hi"
    and "case rest of [] \<Rightarrow> True | c # _ \<Rightarrow> \<not> in_class cls c"
    and "matches p rest = Some gs"
  shows "greedy g cls lo hi p acc (M @ rest) = Some (capture g (rev M @ acc) gs)"
  using assms(1-3)
proof (induction M arbitrary: lo hi acc)
  case Nil
  with assms(4,5) show ?case
    by (cases rest) simp_all
next
  case (Cons c M)
  from Cons.prems have "0 < hi" "in_class cls c" "lo - 1 \<le> length M" "length M \<le> hi - 1"
    by auto
  with Cons.IH [of "lo - 1" "hi - 1" "c # acc"] Cons.prems(1) show ?case
    by simp
qed

lemma matches_version:
  assumes "CHR 0x0A \<notin> set V" and \<open>\<not> starts_in ''</h3>'' V (''</h3>'' @ post)\<close>
  shows \<open>matches flathub_vp (''<h3 class="my-0">Changes in version '' @ V @ ''</h3>'' @ post) = Some [V]\<close>
proof -
  have "matches [Lit ''</h3>''] (''</h3>'' @ post) = Some []"
    by simp
  with assms have "lazy True Any_but_newline [Lit ''</h3>''] [] (V @ ''</h3>'' @ post)
      = Some (capture True (rev V @ []) [])"
    by (intro lazy_up_to) auto
  then show ?thesis
    by (simp add: flathub_vp_def capture_def)
qed

lemma matches_date:
  assumes "\<forall>c\<in>set (M @ D @ Y). in_class Digit c"
    and "1 \<le> length M" "length M \<le> 2" "1 \<le> length D" "length D \<le> 2" "length Y = 4"
    and "CHR 0x0A \<notin> set T"
  shows \<open>matches flathub_up
     (''<div class="text-sm" title="'' @ M @ ''/'' @ D @ ''/'' @ Y @ ''">'' @ T @ ''</div>'' @ post)
     = Some [M, D, Y]\<close>
proof -
  let ?p4 = \<open>[Lit ''">'', Plain Lazy_star Any_but_newline, Lit ''</div>'']\<close>
  let ?p3 = "[Lit ''/'', Group (Greedy 4 4) Digit] @ ?p4"
  let ?p2 = "[Lit ''/'', Group (Greedy 1 2) Digit] @ ?p3"
  from assms(7) have "lazy False Any_but_newline [Lit ''</div>''] [] (T @ ''</div>'' @ post) = Some []"
    by (intro lazy_plain) auto
  then have m4: \<open>matches ?p4 (''">'' @ T @ ''</div>'' @ post) = Some []\<close>
    by simp
  from assms(1,6) have \<open>greedy True Digit 4 4 ?p4 [] (Y @ ''">'' @ T @ ''</div>'' @ post)
      = Some (capture True (rev Y @ []) [])\<close>
    by (intro greedy_all m4) (auto simp: byte_def)
  then have m3: \<open>matches ?p3 (''/'' @ Y @ ''">'' @ T @ ''</div>'' @ post) = Some [Y]\<close>
    by (simp add: capture_def)
  from assms(1,4,5) have \<open>greedy True Digit 1 2 ?p3 []
      (D @ ''/'' @ Y @ ''">'' @ T @ ''</div>'' @ post) = Some (capture True (rev D @ []) [Y])\<close>
    by (intro greedy_all m3) (auto simp: byte_def)
  then have m2: \<open>matches ?p2 (''/'' @ D @ ''/'' @ Y @ ''">'' @ T @ ''</div>'' @ post) = Some [D, Y]\<close>
    by (simp add: capture_def)
  from assms(1,2,3) have \<open>greedy True Digit 1 2 ?p2 []
      (M @ ''/'' @ D @ ''/'' @ Y @ ''">'' @ T @ ''</div>'' @ post)
      = Some (capture True (rev M @ []) [D, Y])\<close>
    by (intro greedy_all m2) (auto simp: byte_def)
  then show ?thesis
    by (simp add: flathub_up_def capture_def)
qed

text \<open>
  Claim C5, as stated, fails: the date is read only from the \<open>title\<close> of a
  \<open>div\<close> of class \<open>text-sm\<close>. A page with the version heading and the date
  \<open>3/4/2024\<close> in the \<open>title\<close> of another element leaves \<open>last_updated\<close> empty.
\<close>

theorem flathub_title_elsewhere_counterexample:
  \<open>fst (PackageFlatPackFlatHub (serving other_title_page (Inl JSONDecodeError)) ''org.example.App'') =
     Inr \<lparr>repository = ''flathub'', name = ''org.example.App'', distro = ''flatpak'',
          distro_release = [], version = PStr ''1.2.3'', last_updated = [],
          source_package = None\<rparr>
   \<and> other_title_page =
       ''<h3 class="my-0">Changes in version '' @ ''1.2.3'' @ ''</h3>''
         @ ''<span '' @ ''title="3/4/2024"'' @ ''>5 months ago</span>''
   \<and> [] \<noteq> ''2024-3-4''\<close>
proof -
  have v: "scan flathub_vp other_title_page = Some [''1.2.3'']"
    by (simp add: flathub_vp_def other_title_page_def capture_def)
  have d: "scan flathub_up other_title_page = None"
    by (simp add: flathub_up_def other_title_page_def)
  have "decode ''1.2.3'' = Inr ''1.2.3''"
    by (simp add: decode_def byte_def)
  with v d show ?thesis
    by (simp add: PackageFlatPackFlatHub_def Package_init_def flathub_update_def flathub_url_def
        flathub_extract_def flathub_date_def flathub_version_def search_const_def or_default_def
        new_object_def url_content_def serving_def group_decode_def group_def)
      (simp add: other_title_page_def)
qed

text \<open>
  Claim C5, amended. Let the fetched page be such that
  \<^item> the first occurrence of \<open><h3 class="my-0">Changes in version \<close> is followed by
    \<open>V</h3>\<close>, where \<open>V\<close> is well-formed UTF-8 without a newline and no \<open></h3>\<close>
    begins inside \<open>V\<close>, and
  \<^item> the first occurrence of \<open><div class="text-sm" title="\<close> is followed by
    \<open>M/D/Y">\<close>, a text \<open>T\<close> without a newline and \<open></div>\<close>, where \<open>M\<close> and \<open>D\<close> are
    one or two ASCII digits and \<open>Y\<close> is four.

  Then the constructor returns an instance with \<open>version = V\<close> and
  \<open>last_updated = Y-M-D\<close>, the digits of month and day as they are on the page.
\<close>

theorem flathub_version_and_date:
  assumes "urlopen e (''https://beta.flathub.org/apps/details/'' @ n) = Inr html"
    and \<open>html = pre @ ''<h3 class="my-0">Changes in version '' @ V @ ''</h3>'' @ post\<close>
    and \<open>\<not> starts_in ''<h3 class="my-0">Changes in version '' pre
          (''<h3 class="my-0">Changes in version '' @ V @ ''</h3>'' @ post)\<close>
    and "CHR 0x0A \<notin> set V"
    and "\<not> starts_in ''</h3>'' V (''</h3>'' @ post)"
    and "utf8_valid V"
    and \<open>html = pre' @ ''<div class="text-sm" title="'' @ M @ ''/'' @ D @ ''/'' @ Y @ ''">''
          @ T @ ''</div>'' @ post'\<close>
    and \<open>\<not> starts_in ''<div class="text-sm" title="'' pre'
          (''<div class="text-sm" title="'' @ M @ ''/'' @ D @ ''/'' @ Y @ ''">''
             @ T @ ''</div>'' @ post')\<close>
    and "\<forall>c\<in>set (M @ D @ Y). in_class Digit c"
    and "1 \<le> length M" "length M \<le> 2" "1 \<le> length D" "length D \<le> 2" "length Y = 4"
    and "CHR 0x0A \<notin> set T"
  shows "\<exists>p. fst (PackageFlatPackFlatHub e n) = Inr p \<and> version p = PStr V
    \<and> last_updated p = Y @ ''-'' @ M @ ''-'' @ D"
proof -
  have \<open>scan flathub_vp html = scan flathub_vp
      (''<h3 class="my-0">Changes in version '' @ V @ ''</h3>'' @ post)\<close>
    unfolding assms(2) flathub_vp_def using assms(3) by (rule scan_skip)
  also have "\<dots> = Some [V]"
    using assms(4,5) by (intro scan_hit matches_version)
  finally have v: "scan flathub_vp html = Some [V]" .
  have \<open>scan flathub_up html = scan flathub_up
      (''<div class="text-sm" title="'' @ M @ ''/'' @ D @ ''/'' @ Y @ ''">''
         @ T @ ''</div>'' @ post')\<close>
    unfolding assms(7) flathub_up_def using assms(8) by (rule scan_skip)
  also have "\<dots> = Some [M, D, Y]"
    using assms(9-15) by (intro scan_hit matches_date)
  finally have d: "scan flathub_up html = Some [M, D, Y]" .
  from assms(6) have dv: "decode V = Inr V"
    by (simp add: decode_def)
  from assms(9) have dd: "decode M = Inr M" "decode D = Inr D" "decode Y = Inr Y"
    by (simp_all add: digits_decode)
  from url_content_body [OF assms(1)] v d dv dd show ?thesis
    by (simp add: PackageFlatPackFlatHub_def Package_init_def flathub_update_def flathub_url_def
        flathub_extract_def flathub_date_def flathub_version_def search_const_def
        group_decode_def group_def)
qed

theorem flathub_version_and_date_witness:
  \<open>urlopen (serving app_page (Inl JSONDecodeError))
       (''https://beta.flathub.org/apps/details/'' @ ''org.example.App'') = Inr app_page
   \<and> app_page = ''<html>'' @ ''<h3 class="my-0">Changes in version '' @ ''1.2.3'' @ ''</h3>''
        @ ''<p><div class="text-sm" title="3/4/2024">5 months ago</div></p></html>''
   \<and> \<not> starts_in ''<h3 class="my-0">Changes in version '' ''<html>''
        (''<h3 class="my-0">Changes in version '' @ ''1.2.3'' @ ''</h3>''
           @ ''<p><div class="text-sm" title="3/4/2024">5 months ago</div></p></html>'')
   \<and> CHR 0x0A \<notin> set ''1.2.3''
   \<and> \<not> starts_in ''</h3>'' ''1.2.3''
        (''</h3>'' @ ''<p><div class="text-sm" title="3/4/2024">5 months ago</div></p></html>'')
   \<and> utf8_valid ''1.2.3''
   \<and> app_page = ''<html><h3 class="my-0">Changes in version 1.2.3</h3><p>''
        @ ''<div class="text-sm" title="'' @ ''3'' @ ''/'' @ ''4'' @ ''/'' @ ''2024'' @ ''">''
        @ ''5 months ago'' @ ''</div>'' @ ''</p></html>''
   \<and> \<not> starts_in ''<div class="text-sm" title="''
        ''<html><h3 class="my-0">Changes in version 1.2.3</h3><p>''
        (''<div class="text-sm" title="'' @ ''3'' @ ''/'' @ ''4'' @ ''/'' @ ''2024'' @ ''">''
           @ ''5 months ago'' @ ''</div>'' @ ''</p></html>'')
   \<and> list_all (in_class Digit) (''3'' @ ''4'' @ ''2024'')
   \<and> 1 \<le> length ''3'' \<and> length ''3'' \<le> 2 \<and> 1 \<le> length ''4'' \<and> length ''4'' \<le> 2
   \<and> length ''2024'' = 4
   \<and> CHR 0x0A \<notin> set ''5 months ago''
   \<and> (\<exists>p. fst (PackageFlatPackFlatHub (serving app_page (Inl JSONDecodeError)) ''org.example.App'')
          = Inr p
        \<and> version p = PStr ''1.2.3'' \<and> last_updated p = ''2024-3-4'')\<close>
proof -
  have h1: \<open>urlopen (serving app_page (Inl JSONDecodeError))
       (''https://beta.flathub.org/apps/details/'' @ ''org.example.App'') = Inr app_page\<close>
    by (simp add: serving_def)
  have h2: \<open>app_page = ''<html>'' @ ''<h3 class="my-0">Changes in version '' @ ''1.2.3'' @ ''</h3>''
        @ ''<p><div class="text-sm" title="3/4/2024">5 months ago</div></p></html>''\<close>
    by (simp add: app_page_def)
  have h3: \<open>\<not> starts_in ''<h3 class="my-0">Changes in version '' ''<html>''
        (''<h3 class="my-0">Changes in version '' @ ''1.2.3'' @ ''</h3>''
           @ ''<p><div class="text-sm" title="3/4/2024">5 months ago</div></p></html>'')\<close>
    by simp
  have h4: "CHR 0x0A \<notin> set ''1.2.3''"
    by simp
  have h5: \<open>\<not> starts_in ''</h3>'' ''1.2.3''
        (''</h3>'' @ ''<p><div class="text-sm" title="3/4/2024">5 months ago</div></p></html>'')\<close>
    by simp
  have h6: "utf8_valid ''1.2.3''"
    by (simp add: byte_def)
  have h7: \<open>app_page = ''<html><h3 class="my-0">Changes in version 1.2.3</h3><p>''
        @ ''<div class="text-sm" title="'' @ ''3'' @ ''/'' @ ''4'' @ ''/'' @ ''2024'' @ ''">''
        @ ''5 months ago'' @ ''</div>'' @ ''</p></html>''\<close>
    by (simp add: app_page_def)
  have h8: \<open>\<not> starts_in ''<div class="text-sm" title="''
        ''<html><h3 class="my-0">Changes in version 1.2.3</h3><p>''
        (''<div class="text-sm" title="'' @ ''3'' @ ''/'' @ ''4'' @ ''/'' @ ''2024'' @ ''">''
           @ ''5 months ago'' @ ''</div>'' @ ''</p></html>'')\<close>
    by simp
  have h9: "\<forall>c\<in>set (''3'' @ ''4'' @ ''2024''). in_class Digit c"
    by (simp add: byte_def)
  have h10: "1 \<le> length ''3''" and h11: "length ''3'' \<le> 2"
    and h12: "1 \<le> length ''4''" and h13: "length ''4'' \<le> 2"
    and h14: "length ''2024'' = 4"
    by simp_all
  have h15: "CHR 0x0A \<notin> set ''5 months ago''"
    by simp
  from flathub_version_and_date [OF h1 h2 h3 h4 h5 h6 h7 h8 h9 h10 h11 h12 h13 h14 h15]
  have "\<exists>p. fst (PackageFlatPackFlatHub (serving app_page (Inl JSONDecodeError)) ''org.example.App'')
          = Inr p
        \<and> version p = PStr ''1.2.3'' \<and> last_updated p = ''2024-3-4''"
    by simp
  moreover have "list_all (in_class Digit) (''3'' @ ''4'' @ ''2024'')"
    by (simp add: byte_def)
  ultimately show ?thesis
    using h1 h2 h3 h4 h5 h6 h7 h8 h10 h11 h12 h13 h14 h15
    by (intro conjI)
qed

end
